theory Spec2Isabelle
  imports Complex_Main
begin

section \<open>Area manipulation of a Voronoi diagram along a centerline\<close>

text \<open>
  A shallow embedding of \<^verbatim>\<open>get_factor\<close>, \<^verbatim>\<open>change_area\<close> and the argument
  checks of \<^verbatim>\<open>read_command_line\<close> in \<^verbatim>\<open>morphman/manipulate_area.py\<close>.

  Numbers are real numbers: the source computes in IEEE doubles, and rounding is not part
  of this development. Python exceptions are values of \<open>exc\<close>. Where numpy would
  divide by zero, raise a non-positive base to a power that has no real value, or take the
  root of a negative number, it issues a RuntimeWarning and goes on with \<^verbatim>\<open>inf\<close> or
  \<^verbatim>\<open>nan\<close>; these values have no counterpart over the reals, the run ends there with
  \<open>NonFinite\<close>, and nothing is stated about it afterwards. VTK does not check the index
  of \<^verbatim>\<open>GetPoint\<close>: a read outside the points of a data set is \<open>OutOfBounds\<close>.
\<close>

subsection \<open>Outcomes\<close>

datatype exc =
  ValueError | ZeroDivisionError | IndexError | UnboundLocalError | AttributeError | SystemExit

datatype failure = Raises exc | NonFinite | OutOfBounds

type_synonym 'a result = "failure + 'a"

definition bind_result :: "'a result \<Rightarrow> ('a \<Rightarrow> 'b result) \<Rightarrow> 'b result" where
  "bind_result r f = (case r of Inl e \<Rightarrow> Inl e | Inr x \<Rightarrow> f x)"

text \<open>An elementwise numpy operation over an array: the first failure ends the run.\<close>

fun map_result :: "('a \<Rightarrow> 'b result) \<Rightarrow> 'a list \<Rightarrow> 'b list result" where
  "map_result f [] = Inr []"
| "map_result f (x # xs) =
     (case f x of
        Inl e \<Rightarrow> Inl e
      | Inr y \<Rightarrow> (case map_result f xs of Inl e \<Rightarrow> Inl e | Inr ys \<Rightarrow> Inr (y # ys)))"

subsection \<open>Data\<close>

type_synonym point = "real \<times> real \<times> real"

definition psub :: "point \<Rightarrow> point \<Rightarrow> point" where
  "psub a b = (case a of (a1, a2, a3) \<Rightarrow> case b of (b1, b2, b3) \<Rightarrow> (a1 - b1, a2 - b2, a3 - b3))"

definition padd :: "point \<Rightarrow> point \<Rightarrow> point" where
  "padd a b = (case a of (a1, a2, a3) \<Rightarrow> case b of (b1, b2, b3) \<Rightarrow> (a1 + b1, a2 + b2, a3 + b3))"

definition pscale :: "point \<Rightarrow> real \<Rightarrow> point" where
  "pscale a c = (case a of (a1, a2, a3) \<Rightarrow> (a1 * c, a2 * c, a3 * c))"

text \<open>
  A centerline is a vtkPolyData whose points carry the array
  \<^verbatim>\<open>CenterlineSectionArea\<close>; a Voronoi diagram is one whose points carry the radius
  array. Both inputs are well formed: one array entry for each point.
\<close>

record sample =
  position :: point
  abscissa :: real
  CenterlineSectionArea :: real

type_synonym centerline = "sample list"

record cloud_point =
  cpoint :: point
  cradius :: real

type_synonym voronoi = "cloud_point list"

text \<open>
  The output is assembled in two containers, as the source does: the points are appended
  one by one, the radius array is allocated with \<open>m\<close> zeros and written by index.
\<close>

record polydata =
  Points :: "point list"
  Radius :: "real list"

subsection \<open>Python and numpy primitives\<close>

text \<open>
  \<^verbatim>\<open>int(round(n * 0.10, 0))\<close>. The double \<^verbatim>\<open>0.10\<close> is off from one tenth by less
  than half a unit in the last place, so \<^verbatim>\<open>n * 0.10\<close> is the double nearest to
  \<open>n / 10\<close>, which is \<open>n / 10\<close> itself when \<open>n\<close> is an odd multiple of five; Python's
  \<^verbatim>\<open>round\<close> then rounds the half to the even neighbour.
\<close>

definition py_round_tenth :: "nat \<Rightarrow> nat" where
  "py_round_tenth n =
     (let q = n div 10; r = n mod 10 in
      if r < 5 then q else if 5 < r then q + 1 else if even q then q else q + 1)"

text \<open>\<^verbatim>\<open>np.linspace(a, b, n)\<close>: one sample is the start alone.\<close>

definition linspace :: "real \<Rightarrow> real \<Rightarrow> nat \<Rightarrow> real list" where
  "linspace a b n =
     (if n = 1 then [a]
      else map (\<lambda>i. a + real i * ((b - a) / real (n - 1))) [0..<n])"

text \<open>\<^verbatim>\<open>np.zeros(n)\<close> raises ValueError on a negative dimension.\<close>

definition np_zeros :: "int \<Rightarrow> real list result" where
  "np_zeros n = (if n < 0 then Inl (Raises ValueError) else Inr (replicate (nat n) 0))"

text \<open>\<^verbatim>\<open>np.mean\<close>; on an empty array it is \<^verbatim>\<open>nan\<close>, which no later step reads.\<close>

definition np_mean :: "real list \<Rightarrow> real" where
  "np_mean xs = sum_list xs / real (length xs)"

text \<open>Elementwise division of doubles in numpy: no exception, \<^verbatim>\<open>inf\<close> or \<^verbatim>\<open>nan\<close>.\<close>

definition np_divide :: "real \<Rightarrow> real \<Rightarrow> real result" where
  "np_divide x y = (if y = 0 then Inl NonFinite else Inr (x / y))"

text \<open>Elementwise \<^verbatim>\<open>**\<close> of doubles in numpy (C's \<^verbatim>\<open>pow\<close>).\<close>

definition np_power :: "real \<Rightarrow> real \<Rightarrow> real result" where
  "np_power x b =
     (if b = 0 then Inr 1
      else if 0 < x then Inr (x powr b)
      else if x = 0 then (if 0 < b then Inr 0 else Inl NonFinite)
      else if b = of_int \<lfloor>b\<rfloor> then Inr (x powi \<lfloor>b\<rfloor>)
      else Inl NonFinite)"

definition np_sqrt :: "real \<Rightarrow> real result" where
  "np_sqrt x = (if x < 0 then Inl NonFinite else Inr (sqrt x))"

text \<open>\<^verbatim>\<open>math.log\<close> raises ValueError outside its domain.\<close>

definition math_log :: "real \<Rightarrow> real result" where
  "math_log x = (if x \<le> 0 then Inl (Raises ValueError) else Inr (ln x))"

text \<open>Division of Python floats raises ZeroDivisionError.\<close>

definition py_div :: "real \<Rightarrow> real \<Rightarrow> real result" where
  "py_div x y = (if y = 0 then Inl (Raises ZeroDivisionError) else Inr (x / y))"

text \<open>
  \<^verbatim>\<open>factor_ * (1 - trans) + trans\<close> on two arrays of the same shape.
\<close>

definition blend :: "real list \<Rightarrow> real list \<Rightarrow> real list" where
  "blend fs ts = map2 (\<lambda>f t. f * (1 - t) + t) fs ts"

text \<open>
  Modelled from the spec: \<^verbatim>\<open>get_curvilinear_coordinate\<close> of
  \<^verbatim>\<open>morphman.common\<close> is not part of the sources at hand. The spec's centerline sample
  carries an arc-length coordinate; the function returns it for each sample, in order.
\<close>

definition get_curvilinear_coordinate :: "centerline \<Rightarrow> real list" where
  "get_curvilinear_coordinate line = map abscissa line"

subsection \<open>The factor\<close>

text \<open>
  The transition weights of \<^verbatim>\<open>get_factor\<close> (the source's \<^verbatim>\<open>trans\<close>), for a
  centerline of \<open>n\<close> samples.
\<close>

definition transition :: "string \<Rightarrow> string \<Rightarrow> nat \<Rightarrow> real list result" where
  "transition region_of_interest method n =
     (let (k, linear) =
            (if region_of_interest \<in> set [''manual'', ''commandline'']
                \<and> method \<in> set [''area'', ''variation'']
             then (py_round_tenth n, int n - int (py_round_tenth n) * 2)
             else (0, int n))
      in bind_result (np_zeros linear) (\<lambda>zs.
           let trans = linspace 1 0 k @ zs @ linspace 0 1 k in
           if region_of_interest = ''first_line''
           then (let k = py_round_tenth n; linear = int n - int k
                 in bind_result (np_zeros linear) (\<lambda>zs. Inr (zs @ linspace 0 1 k)))
           else Inr trans))"

text \<open>
  The exponent solved from a target ratio of largest to smallest area. The maximum of an
  empty array raises ValueError. The quotient \<^verbatim>\<open>R_old\<close> is computed before the
  logarithms, but raises nothing: \<^verbatim>\<open>math.log(ratio)\<close> is the first call that can
  raise.
\<close>

definition beta_of_ratio :: "real list \<Rightarrow> real \<Rightarrow> real result" where
  "beta_of_ratio area ratio =
     (if area = [] then Inl (Raises ValueError)
      else bind_result (math_log ratio) (\<lambda>lr.
           bind_result (np_divide (Max (set area)) (Min (set area))) (\<lambda>R_old.
           bind_result (math_log R_old) (\<lambda>lo.
           bind_result (py_div lr lo) (\<lambda>q. Inr (0.5 * (q - 1)))))))"

text \<open>
  \<^verbatim>\<open>gaussian_filter(area, 5)\<close> of \<^verbatim>\<open>scipy.ndimage\<close> returns an array of the
  shape of its input. The library's filter is a parameter: \<open>filt xs i\<close> is entry
  \<open>i\<close> of the filtered column \<open>xs\<close>.
\<close>

definition gaussian_filter :: "(real list \<Rightarrow> nat \<Rightarrow> real) \<Rightarrow> real list \<Rightarrow> real list" where
  "gaussian_filter filt xs = map (filt xs) [0..<length xs]"

text \<open>The filter that leaves every entry as it is.\<close>

definition no_smoothing :: "real list \<Rightarrow> nat \<Rightarrow> real" where
  "no_smoothing xs i = xs ! i"

text \<open>The area array of \<^verbatim>\<open>get_factor\<close>: read from the centerline, filtered twice.\<close>

definition smoothed_area :: "(real list \<Rightarrow> nat \<Rightarrow> real) \<Rightarrow> centerline \<Rightarrow> real list" where
  "smoothed_area filt line_to_change =
     gaussian_filter filt (gaussian_filter filt (map CenterlineSectionArea line_to_change))"

text \<open>
  The branches of \<^verbatim>\<open>get_factor\<close>, one definition each. Method
  \<^verbatim>\<open>"variation"\<close>: \<^verbatim>\<open>((area / mean_area) ** beta)[:, 0] * (1 - trans) + trans\<close>.
\<close>

definition variation_factor :: "real list \<Rightarrow> real \<Rightarrow> real \<Rightarrow> real list \<Rightarrow> real list result" where
  "variation_factor area mean_area beta trans' =
     bind_result
       (map_result (\<lambda>a. bind_result (np_divide a mean_area) (\<lambda>x. np_power x beta)) area)
       (\<lambda>factor0. Inr (blend factor0 trans'))"

text \<open>Method \<^verbatim>\<open>"stenosis"\<close> with one region point: a sine over the \<open>n\<close> samples.\<close>

definition sine_factor :: "nat \<Rightarrow> real \<Rightarrow> real list \<Rightarrow> real list result" where
  "sine_factor n percentage trans' =
     (let t = linspace 0 pi n;
          factor = map (\<lambda>x. 1 - sin x * percentage * 0.01) t
      in Inr (blend factor trans'))"

text \<open>
  Method \<^verbatim>\<open>"stenosis"\<close> with two region points: the area between the ends is
  interpolated along the curvilinear coordinate. \<^verbatim>\<open>area[0]\<close> raises IndexError on an
  empty array.
\<close>

definition linear_factor :: "real list \<Rightarrow> real list \<Rightarrow> real list \<Rightarrow> real list result" where
  "linear_factor lengths area trans' =
     (if area = [] then Inl (Raises IndexError)
      else bind_result
             (map_result
                (\<lambda>(l, a).
                   bind_result (np_divide l (Max (set lengths))) (\<lambda>s.
                   bind_result (np_divide (hd area + (last area - hd area) * s) a) np_sqrt))
                (zip lengths area))
             (\<lambda>factor. Inr (blend factor trans')))"

text \<open>Method \<^verbatim>\<open>"area"\<close>: \<^verbatim>\<open>np.ones(len(trans)) * (1 + percentage * 0.01)\<close>.\<close>

definition area_factor :: "real \<Rightarrow> real list \<Rightarrow> real list result" where
  "area_factor percentage trans' =
     (let factor0 = map (\<lambda>x. x * (1 + percentage * 0.01)) (replicate (length trans') 1)
      in Inr (blend factor0 trans'))"

text \<open>
  \<^verbatim>\<open>get_factor\<close>. A method that matches no branch, or a stenosis with neither three
  nor six coordinates, leaves \<^verbatim>\<open>factor\<close> unbound at the \<^verbatim>\<open>return\<close>.
\<close>

definition get_factor ::
  "(real list \<Rightarrow> nat \<Rightarrow> real) \<Rightarrow> centerline \<Rightarrow> string \<Rightarrow> real \<Rightarrow> real option \<Rightarrow> real \<Rightarrow>
   string \<Rightarrow> real list \<Rightarrow> real list result" where
  "get_factor filt line_to_change method beta ratio percentage
     region_of_interest region_points =
     (let area = smoothed_area filt line_to_change;
          mean_area = np_mean area
      in bind_result (transition region_of_interest method (length area)) (\<lambda>trans.
         if method = ''variation'' then
           (case ratio of
              Some r \<Rightarrow>
                bind_result (beta_of_ratio area r) (\<lambda>beta.
                  variation_factor area mean_area beta trans)
            | None \<Rightarrow> variation_factor area mean_area beta trans)
         else if method = ''stenosis'' then
           (if length region_points = 3 then
              sine_factor (length line_to_change) percentage trans
            else if length region_points = 6 then
              linear_factor (get_curvilinear_coordinate line_to_change) area trans
            else Inl (Raises UnboundLocalError))
         else if method = ''area'' then area_factor percentage trans
         else Inl (Raises UnboundLocalError)))"

subsection \<open>The Voronoi diagram\<close>

text \<open>
  The parameter \<open>locator\<close> stands for \<^verbatim>\<open>vtkStaticPointLocator\<close>:
  \<open>locator line p\<close> is what \<^verbatim>\<open>FindClosestPoint(p)\<close> returns once the locator is
  built on \<open>line\<close>.

  The first loop of \<^verbatim>\<open>change_area\<close>, over the points of the Voronoi diagram from
  index \<open>i\<close> on.
\<close>

fun manipulate_points ::
  "(point \<Rightarrow> nat) \<Rightarrow> centerline \<Rightarrow> real list \<Rightarrow> voronoi \<Rightarrow> nat \<Rightarrow> polydata \<Rightarrow> polydata result"
  where
  "manipulate_points loc line_to_change factor [] i out = Inr out"
| "manipulate_points loc line_to_change factor (p # ps) i out =
     (let point = cpoint p; tmp_id = loc point in
      if length line_to_change \<le> tmp_id then Inl OutOfBounds
      else if length factor \<le> tmp_id then Inl (Raises IndexError)
      else
        (let v1 = psub (position (line_to_change ! tmp_id)) point;
             v2 = pscale v1 (1 - factor ! tmp_id);
             point = padd point v2;
             point_radius = cradius p * factor ! tmp_id
         in manipulate_points loc line_to_change factor ps (i + 1)
              (out\<lparr>Points := Points out @ [point],
                   Radius := (Radius out)[i := point_radius]\<rparr>)))"

text \<open>The inner loop over the points of one diverging Voronoi diagram.\<close>

fun offset_points :: "point \<Rightarrow> voronoi \<Rightarrow> nat \<Rightarrow> polydata \<Rightarrow> nat \<times> polydata" where
  "offset_points v2 [] count out = (count, out)"
| "offset_points v2 (p # ps) count out =
     offset_points v2 ps (count + 1)
       (out\<lparr>Points := Points out @ [padd (cpoint p) v2],
            Radius := (Radius out)[count := cradius p]\<rparr>)"

text \<open>
  The loop over \<^verbatim>\<open>range(len(diverging_voronoi))\<close>, from index \<open>j\<close> on. A missing
  centerline is an IndexError of the Python list, a diverging Voronoi diagram that is
  \<^verbatim>\<open>None\<close> has no \<^verbatim>\<open>GetPointData\<close>.
\<close>

fun offset_diverging ::
  "(point \<Rightarrow> nat) \<Rightarrow> centerline \<Rightarrow> real list \<Rightarrow> centerline list \<Rightarrow> voronoi option list \<Rightarrow>
   nat \<Rightarrow> nat \<Rightarrow> polydata \<Rightarrow> polydata result" where
  "offset_diverging loc line_to_change factor diverging_centerline [] j count out = Inr out"
| "offset_diverging loc line_to_change factor diverging_centerline (dv # dvs) j count out =
     (if length diverging_centerline \<le> j then Inl (Raises IndexError)
      else
        (case diverging_centerline ! j of
           [] \<Rightarrow> Inl OutOfBounds
         | s # _ \<Rightarrow>
             (let point = position s; tmp_id = loc point in
              if length line_to_change \<le> tmp_id then Inl OutOfBounds
              else if length factor \<le> tmp_id then Inl (Raises IndexError)
              else
                (let v1 = psub (position (line_to_change ! tmp_id)) point;
                     v2 = pscale v1 (1 - factor ! tmp_id)
                 in case dv of
                      None \<Rightarrow> Inl (Raises AttributeError)
                    | Some voro \<Rightarrow>
                        (case offset_points v2 voro count out of
                           (count, out) \<Rightarrow>
                             offset_diverging loc line_to_change factor diverging_centerline
                               dvs (j + 1) count out)))))"

text \<open>
  \<^verbatim>\<open>change_area\<close>. \<^verbatim>\<open>diverging_voronoi[0]\<close> raises IndexError on an empty list
  and is false when it is \<^verbatim>\<open>None\<close>. After a first loop over no point the loop
  variable \<^verbatim>\<open>i\<close> is unbound at \<^verbatim>\<open>count = i + 1\<close>.
\<close>

definition change_area ::
  "(centerline \<Rightarrow> point \<Rightarrow> nat) \<Rightarrow> (real list \<Rightarrow> nat \<Rightarrow> real) \<Rightarrow> voronoi \<Rightarrow> centerline \<Rightarrow>
   string \<Rightarrow> real \<Rightarrow> real option \<Rightarrow> real \<Rightarrow> string \<Rightarrow> real list \<Rightarrow>
   centerline list option \<Rightarrow> voronoi option list \<Rightarrow> polydata result" where
  "change_area locator filt voronoi line_to_change method beta ratio percentage
     region_of_interest region_points diverging_centerline diverging_voronoi =
     bind_result
       (get_factor filt line_to_change method beta ratio percentage region_of_interest
          region_points)
       (\<lambda>factor.
          let loc = locator line_to_change; n = length voronoi in
          case diverging_voronoi of
            [] \<Rightarrow> Inl (Raises IndexError)
          | d0 # _ \<Rightarrow>
              bind_result
                (if d0 \<noteq> None
                 then bind_result
                        (map_result
                           (\<lambda>d. case d of None \<Rightarrow> Inl (Raises AttributeError)
                                            | Some voro \<Rightarrow> Inr (length voro))
                           diverging_voronoi)
                        (\<lambda>ns. Inr (n + sum_list ns))
                 else Inr n)
                (\<lambda>m.
                   bind_result
                     (manipulate_points loc line_to_change factor voronoi 0
                        \<lparr>Points = [], Radius = replicate m 0\<rparr>)
                     (\<lambda>out.
                        case diverging_centerline of
                          None \<Rightarrow> Inr out
                        | Some dcs \<Rightarrow>
                            if n = 0 then Inl (Raises UnboundLocalError)
                            else offset_diverging loc line_to_change factor dcs
                                   diverging_voronoi 0 n out)))"

subsection \<open>The command line\<close>

text \<open>
  The values \<^verbatim>\<open>read_command_line\<close> checks. The parser rejects a value outside the
  \<^verbatim>\<open>choices\<close> of an option by \<^verbatim>\<open>parser.error\<close>, which exits; the other
  checks raise ValueError. A call that passes returns the values it was given.
\<close>

record arguments =
  arg_method :: string
  arg_region_of_interest :: string
  arg_region_points :: "real list option"
  arg_beta :: real
  arg_ratio :: "real option"
  arg_percentage :: real
  arg_no_smooth_point :: "real list option"

definition read_command_line :: "arguments \<Rightarrow> arguments result" where
  "read_command_line args =
     (if arg_method args \<notin> set [''variation'', ''stenosis'', ''area'']
      then Inl (Raises SystemExit)
      else if arg_region_of_interest args \<notin> set [''manual'', ''commandline'', ''first_line'']
      then Inl (Raises SystemExit)
      else if arg_method args = ''stenosis'' \<and> arg_region_of_interest args = ''first_line''
      then Inl (Raises ValueError)
      else if (case arg_region_points args of
                 None \<Rightarrow> False
               | Some ps \<Rightarrow> length ps mod 3 \<noteq> 0 \<or> 6 < length ps)
      then Inl (Raises ValueError)
      else if (case arg_no_smooth_point args of
                 None \<Rightarrow> False
               | Some ps \<Rightarrow> ps \<noteq> [] \<and> length ps mod 3 \<noteq> 0)
      then Inl (Raises ValueError)
      else Inr args)"

subsection \<open>What the loops compute\<close>

text \<open>
  The deformation of one point of the main cloud, in the words of the specification: the
  point moves towards (or away from) its nearest sample of the centerline, and its radius
  is multiplied by the factor of that sample.
\<close>

definition deform :: "(point \<Rightarrow> nat) \<Rightarrow> centerline \<Rightarrow> real list \<Rightarrow> cloud_point \<Rightarrow> cloud_point" where
  "deform nearest centerline factor p =
     (let i = nearest (cpoint p);
          displacement = pscale (psub (position (centerline ! i)) (cpoint p)) (1 - factor ! i)
      in \<lparr>cpoint = padd (cpoint p) displacement, cradius = cradius p * factor ! i\<rparr>)"

text \<open>
  The displacement of a side branch attached at \<open>a\<close>, and the translation of a point by a
  displacement; the radius stays.
\<close>

definition displacement_at :: "(point \<Rightarrow> nat) \<Rightarrow> centerline \<Rightarrow> real list \<Rightarrow> point \<Rightarrow> point" where
  "displacement_at nearest centerline factor a =
     (let i = nearest a in pscale (psub (position (centerline ! i)) a) (1 - factor ! i))"

definition translate :: "point \<Rightarrow> cloud_point \<Rightarrow> cloud_point" where
  "translate d p = \<lparr>cpoint = padd (cpoint p) d, cradius = cradius p\<rparr>"

text \<open>
  A side branch translated by the displacement at the first sample of its own centerline,
  and the branches one after the other, each with its centerline.
\<close>

definition translated ::
  "(point \<Rightarrow> nat) \<Rightarrow> centerline \<Rightarrow> real list \<Rightarrow> centerline \<Rightarrow> voronoi \<Rightarrow> voronoi" where
  "translated nearest centerline factor branch_line b =
     map (translate (displacement_at nearest centerline factor (position (hd branch_line)))) b"

fun translated_branches ::
  "(point \<Rightarrow> nat) \<Rightarrow> centerline \<Rightarrow> real list \<Rightarrow> centerline list \<Rightarrow> voronoi list \<Rightarrow> voronoi" where
  "translated_branches nearest centerline factor (c # cs) (b # bs) =
     translated nearest centerline factor c b @ translated_branches nearest centerline factor cs bs"
| "translated_branches nearest centerline factor cs bs = []"

text \<open>
  The factor before the transition is blended in (the source's \<^verbatim>\<open>factor_\<close>): the
  branches of \<^verbatim>\<open>get_factor\<close> up to the line
  \<^verbatim>\<open>factor = factor_ * (1 - trans) + trans\<close>.
\<close>

definition raw_factor ::
  "(real list \<Rightarrow> nat \<Rightarrow> real) \<Rightarrow> centerline \<Rightarrow> string \<Rightarrow> real \<Rightarrow> real option \<Rightarrow> real \<Rightarrow>
   real list \<Rightarrow> real list result" where
  "raw_factor filt line_to_change method beta ratio percentage region_points =
     (let area = smoothed_area filt line_to_change;
          mean_area = np_mean area
      in if method = ''variation'' then
           (case ratio of
              Some r \<Rightarrow>
                bind_result (beta_of_ratio area r) (\<lambda>beta.
                  map_result (\<lambda>a. bind_result (np_divide a mean_area) (\<lambda>x. np_power x beta)) area)
            | None \<Rightarrow>
                map_result (\<lambda>a. bind_result (np_divide a mean_area) (\<lambda>x. np_power x beta)) area)
         else if method = ''stenosis'' then
           (if length region_points = 3 then
              Inr (map (\<lambda>x. 1 - sin x * percentage * 0.01) (linspace 0 pi (length line_to_change)))
            else if length region_points = 6 then
              (let lengths = get_curvilinear_coordinate line_to_change in
               if area = [] then Inl (Raises IndexError)
               else map_result
                      (\<lambda>(l, a).
                         bind_result (np_divide l (Max (set lengths))) (\<lambda>s.
                         bind_result (np_divide (hd area + (last area - hd area) * s) a) np_sqrt))
                      (zip lengths area))
            else Inl (Raises UnboundLocalError))
         else if method = ''area'' then
           Inr (map (\<lambda>x. x * (1 + percentage * 0.01)) (replicate (length area) 1))
         else Inl (Raises UnboundLocalError))"

text \<open>
  The transition weights in closed form: with \<open>k\<close> the tenth of the samples, rounded,
  a ramp over the last \<open>k\<close> samples for \<^verbatim>\<open>"first_line"\<close>; a ramp over the first and
  over the last \<open>k\<close> samples for the methods \<^verbatim>\<open>"area"\<close> and \<^verbatim>\<open>"variation"\<close> with a
  region given by hand or on the command line; no transition otherwise.
\<close>

definition transition_weights :: "string \<Rightarrow> string \<Rightarrow> nat \<Rightarrow> real list" where
  "transition_weights region_of_interest method n =
     (let k = py_round_tenth n in
      if region_of_interest = ''first_line''
      then replicate (n - k) 0 @ linspace 0 1 k
      else if region_of_interest \<in> set [''manual'', ''commandline'']
              \<and> method \<in> set [''area'', ''variation'']
      then linspace 1 0 k @ replicate (n - k * 2) 0 @ linspace 0 1 k
      else replicate n 0)"

text \<open>
  The raw factor of the method \<^verbatim>\<open>"variation"\<close> and the exponent for a target ratio, in
  the words of the specification: \<open>(area / meanArea) ^ beta\<close>, and
  \<open>beta = 0.5 * (ln ratio / ln R_old - 1)\<close> with \<open>R_old = max area / min area\<close>.
\<close>

definition closed_form_beta :: "real list \<Rightarrow> real \<Rightarrow> real" where
  "closed_form_beta area ratio =
     (let R_old = Max (set area) / Min (set area) in 0.5 * (ln ratio / ln R_old - 1))"

definition variation_raw :: "real list \<Rightarrow> real \<Rightarrow> real list" where
  "variation_raw area beta = (let meanArea = np_mean area in map (\<lambda>a. (a / meanArea) powr beta) area)"

text \<open>
  The number of points of the diverging Voronoi diagrams, and the number \<open>m\<close> of entries
  that \<^verbatim>\<open>change_area\<close> allocates for the radius array.
\<close>

definition cloud_sizes :: "voronoi option list \<Rightarrow> nat" where
  "cloud_sizes dvs = sum_list (map (\<lambda>d. case d of None \<Rightarrow> 0 | Some v \<Rightarrow> length v) dvs)"

definition allocated :: "nat \<Rightarrow> voronoi option list \<Rightarrow> nat result" where
  "allocated n dv =
     (case dv of
        [] \<Rightarrow> Inl (Raises IndexError)
      | d0 # _ \<Rightarrow>
          if d0 \<noteq> None
          then bind_result
                 (map_result
                    (\<lambda>d. case d of None \<Rightarrow> Inl (Raises AttributeError)
                                     | Some voro \<Rightarrow> Inr (length voro))
                    dv)
                 (\<lambda>ns. Inr (n + sum_list ns))
          else Inr n)"

subsection \<open>Examples\<close>

text \<open>A centerline along the first axis, from the abscissa and the area of each sample.\<close>

definition line_of :: "(real \<times> real) list \<Rightarrow> centerline" where
  "line_of xs =
     map (\<lambda>(x, a). \<lparr>position = (x, 0, 0), abscissa = x, CenterlineSectionArea = a\<rparr>) xs"

text \<open>
  A locator for the examples: the search through all samples for the closest one, the
  earlier sample on a tie.
\<close>

definition sqdist :: "point \<Rightarrow> point \<Rightarrow> real" where
  "sqdist a b = (case psub a b of (x, y, z) \<Rightarrow> x * x + y * y + z * z)"

fun nearest_index :: "centerline \<Rightarrow> point \<Rightarrow> nat" where
  "nearest_index [] p = 0"
| "nearest_index [s] p = 0"
| "nearest_index (s # t # ss) p =
     (let i = nearest_index (t # ss) p in
      if sqdist (position s) p \<le> sqdist (position ((t # ss) ! i)) p then 0 else Suc i)"

text \<open>
  Three samples with areas 1, 2 and 3, a Voronoi diagram of two points, and one side branch
  of two points whose centerline starts off the axis.
\<close>

definition example_line :: centerline where
  "example_line = line_of [(0, 1), (1, 2), (2, 3)]"

definition example_voronoi :: voronoi where
  "example_voronoi = [\<lparr>cpoint = (0, 1, 0), cradius = 1\<rparr>, \<lparr>cpoint = (2, 2, 0), cradius = 2\<rparr>]"

definition example_branch_line :: centerline where
  "example_branch_line = [\<lparr>position = (2, 1, 0), abscissa = 0, CenterlineSectionArea = 1\<rparr>]"

definition example_branch :: voronoi where
  "example_branch = [\<lparr>cpoint = (2, 2, 0), cradius = 1/2\<rparr>, \<lparr>cpoint = (3, 3, 0), cradius = 1/4\<rparr>]"

text \<open>
  A straight centerline of \<open>n\<close> samples at unit spacing with area 1, and the sine of the
  one-point stenosis over \<open>n\<close> samples.
\<close>

definition straight_line :: "nat \<Rightarrow> centerline" where
  "straight_line n = line_of (map (\<lambda>i. (real i, 1)) [0..<n])"

definition sine_profile :: "real \<Rightarrow> nat \<Rightarrow> real list" where
  "sine_profile percentage n = map (\<lambda>x. 1 - sin x * percentage * 0.01) (linspace 0 pi n)"

section \<open>Properties\<close>

subsection \<open>Outcomes, rounding and transition weights\<close>

lemma bind_result_Inr [simp]: "bind_result (Inr x) f = f x"
  by (simp add: bind_result_def)

lemma bind_result_Inl [simp]: "bind_result (Inl e) f = Inl e"
  by (simp add: bind_result_def)

lemma bind_result_eq_Inr:
  "bind_result r f = Inr y \<longleftrightarrow> (\<exists>x. r = Inr x \<and> f x = Inr y)"
  by (cases r) simp_all

lemma map_result_Inr_all2:
  "map_result f xs = Inr ys \<Longrightarrow> list_all2 (\<lambda>x y. f x = Inr y) xs ys"
proof (induction xs arbitrary: ys)
  case Nil
  then show ?case by simp
next
  case (Cons x xs)
  then show ?case
    by (auto split: sum.splits)
qed

lemma map_result_total:
  "(\<And>x. x \<in> set xs \<Longrightarrow> f x = Inr (g x)) \<Longrightarrow> map_result f xs = Inr (map g xs)"
  by (induction xs) simp_all

lemma map_result_length: "map_result f xs = Inr ys \<Longrightarrow> length ys = length xs"
  by (drule map_result_Inr_all2) (simp add: list_all2_lengthD)

lemma py_round_tenth_double: "py_round_tenth n * 2 \<le> n"
proof -
  have "n mod 10 < 10" by simp
  moreover have "n = 10 * (n div 10) + n mod 10" by simp
  ultimately show ?thesis
    unfolding py_round_tenth_def Let_def by (auto split: if_splits)
qed

lemma py_round_tenth_le: "py_round_tenth n \<le> n"
  using py_round_tenth_double [of n] by linarith

lemma length_linspace [simp]: "length (linspace a b n) = n"
  by (simp add: linspace_def)

lemma np_zeros_nat [simp]: "np_zeros (int n) = Inr (replicate n 0)"
  by (simp add: np_zeros_def)

lemma transition_eq:
  "transition roi method n =
     Inr (if roi = ''first_line''
          then replicate (n - py_round_tenth n) 0 @ linspace 0 1 (py_round_tenth n)
          else if roi \<in> set [''manual'', ''commandline''] \<and> method \<in> set [''area'', ''variation'']
          then linspace 1 0 (py_round_tenth n) @ replicate (n - py_round_tenth n * 2) 0
                 @ linspace 0 1 (py_round_tenth n)
          else replicate n 0)"
proof -
  have a: "int n - int (py_round_tenth n) * 2 = int (n - py_round_tenth n * 2)"
    using py_round_tenth_double [of n] by simp
  have b: "int n - int (py_round_tenth n) = int (n - py_round_tenth n)"
    using py_round_tenth_le [of n] by simp
  have l0: "linspace 1 0 0 = []" "linspace 0 1 0 = []"
    by (simp_all add: linspace_def)
  show ?thesis
    unfolding transition_def Let_def
    by (simp only: a b split: prod.split if_split) (auto simp: l0 simp del: of_nat_diff)
qed


lemma length_gaussian_filter [simp]: "length (gaussian_filter filt xs) = length xs"
  by (simp add: gaussian_filter_def)

lemma length_smoothed_area [simp]: "length (smoothed_area filt line) = length line"
  by (simp add: smoothed_area_def)

lemma length_blend [simp]: "length (blend fs ts) = min (length fs) (length ts)"
  by (simp add: blend_def)

lemma transition_length: "transition roi method n = Inr ts \<Longrightarrow> length ts = n"
  using py_round_tenth_double [of n] py_round_tenth_le [of n]
  by (auto simp: transition_eq split: if_splits)

lemma variation_factor_length:
  "variation_factor area mean_area beta ts = Inr f \<Longrightarrow> length f = min (length area) (length ts)"
  by (auto simp: variation_factor_def bind_result_eq_Inr dest!: map_result_length)

lemma sine_factor_length:
  "sine_factor n percentage ts = Inr f \<Longrightarrow> length f = min n (length ts)"
  by (auto simp: sine_factor_def)

lemma linear_factor_length:
  "linear_factor ls area ts = Inr f \<Longrightarrow> length f = min (min (length ls) (length area)) (length ts)"
  by (auto simp: linear_factor_def bind_result_eq_Inr dest!: map_result_length split: if_splits)

lemma area_factor_length:
  "area_factor percentage ts = Inr f \<Longrightarrow> length f = length ts"
  by (auto simp: area_factor_def)

lemma get_factor_cases:
  assumes "get_factor filt line method beta ratio percentage roi rp = Inr factor"
  obtains ts b where "transition roi method (length line) = Inr ts"
    and "variation_factor (smoothed_area filt line) (np_mean (smoothed_area filt line)) b ts = Inr factor
       \<or> sine_factor (length line) percentage ts = Inr factor
       \<or> linear_factor (get_curvilinear_coordinate line) (smoothed_area filt line) ts = Inr factor
       \<or> area_factor percentage ts = Inr factor"
  using assms unfolding get_factor_def Let_def
  by (auto simp: bind_result_eq_Inr split: if_splits option.splits)

text \<open>
  Claim C6: whatever the method, the region mode and the parameters, a factor that
  \<^verbatim>\<open>get_factor\<close> returns has one entry for each sample of the centerline.
\<close>

theorem get_factor_length:
  assumes "get_factor filt line method beta ratio percentage roi rp = Inr factor"
  shows "length factor = length line"
proof -
  from assms obtain ts b where ts: "transition roi method (length line) = Inr ts"
    and br: "variation_factor (smoothed_area filt line) (np_mean (smoothed_area filt line)) b ts = Inr factor
       \<or> sine_factor (length line) percentage ts = Inr factor
       \<or> linear_factor (get_curvilinear_coordinate line) (smoothed_area filt line) ts = Inr factor
       \<or> area_factor percentage ts = Inr factor"
    by (rule get_factor_cases)
  have lt: "length ts = length line"
    using ts by (rule transition_length)
  from br show ?thesis
    using lt
    by (auto simp: get_curvilinear_coordinate_def
          dest!: variation_factor_length sine_factor_length linear_factor_length area_factor_length)
qed

text \<open>
  Claim C10: with method \<^verbatim>\<open>"variation"\<close> and a ratio given, the argument
  \<^verbatim>\<open>beta\<close> has no influence: two calls that differ in it alone have the same outcome.
\<close>

theorem get_factor_ratio_ignores_beta:
  "get_factor filt line ''variation'' beta1 (Some r) percentage roi rp =
   get_factor filt line ''variation'' beta2 (Some r) percentage roi rp"
  by (simp add: get_factor_def)


lemma gaussian_filter_no_smoothing [simp]: "gaussian_filter no_smoothing xs = xs"
  by (simp add: gaussian_filter_def no_smoothing_def [abs_def] map_nth)

lemma smoothed_area_no_smoothing [simp]:
  "smoothed_area no_smoothing line = map CenterlineSectionArea line"
  by (simp add: smoothed_area_def)

lemma areas_line_of [simp]: "map CenterlineSectionArea (line_of xs) = map snd xs"
  by (simp add: line_of_def case_prod_unfold)

lemma length_line_of [simp]: "length (line_of xs) = length xs"
  by (simp add: line_of_def)

lemma rt10: "py_round_tenth 10 = 1"
  by (simp add: py_round_tenth_def)

lemma tr10: "transition ''manual'' ''area'' 10 = Inr [1, 0, 0, 0, 0, 0, 0, 0, 0, 0]"
proof -
  have r: "replicate 8 (0::real) = [0, 0, 0, 0, 0, 0, 0, 0]"
    by (simp add: numeral_eq_Suc)
  show ?thesis
    by (simp add: transition_eq rt10 linspace_def r)
qed

lemma get_factor_example:
  "get_factor no_smoothing
     (line_of [(0, 1), (1, 1), (2, 1), (3, 1), (4, 1), (5, 1), (6, 1), (7, 1), (8, 1), (9, 1)])
     ''area'' 0 None 50 ''manual'' [] =
   Inr [1, 3/2, 3/2, 3/2, 3/2, 3/2, 3/2, 3/2, 3/2, 3/2]"
proof -
  have n: "length (smoothed_area no_smoothing
     (line_of [(0, 1), (1, 1), (2, 1), (3, 1), (4, 1), (5, 1), (6, 1), (7, 1), (8, 1), (9, 1)])) = 10"
    by simp
  have a: "area_factor 50 [1, 0, 0, 0, 0, 0, 0, 0, 0, 0] =
      Inr [1, 3/2, 3/2, 3/2, 3/2, 3/2, 3/2, 3/2, 3/2, 3/2]"
    by (simp add: area_factor_def blend_def)
  show ?thesis
    unfolding get_factor_def Let_def n tr10 by (simp add: a)
qed

theorem get_factor_length_witness:
  "get_factor no_smoothing
     (line_of [(0, 1), (1, 1), (2, 1), (3, 1), (4, 1), (5, 1), (6, 1), (7, 1), (8, 1), (9, 1)])
     ''area'' 0 None 50 ''manual'' [] =
   Inr [1, 3/2, 3/2, 3/2, 3/2, 3/2, 3/2, 3/2, 3/2, 3/2]
   \<and> length [1, 3/2, 3/2, 3/2, 3/2, 3/2, 3/2, 3/2, 3/2, 3/2 :: real] =
     length (line_of [(0, 1), (1, 1), (2, 1), (3, 1), (4, 1), (5, 1), (6, 1), (7, 1), (8, 1), (9, 1)])"
  using get_factor_length [OF get_factor_example] get_factor_example by blast


subsection \<open>The loops of \<^verbatim>\<open>change_area\<close>\<close>

lemma take_Suc_update: "i < length xs \<Longrightarrow> take (Suc i) (xs[i := v]) = take i xs @ [v]"
  by (simp add: take_Suc_conv_app_nth)

lemma manipulate_points_Inr:
  assumes "manipulate_points loc line factor vs i out = Inr out'"
    and "i + length vs \<le> length (Radius out)"
  shows "Points out' = Points out @ map (cpoint \<circ> deform loc line factor) vs
       \<and> Radius out' = take i (Radius out) @ map (cradius \<circ> deform loc line factor) vs
             @ drop (i + length vs) (Radius out)
       \<and> (\<forall>p \<in> set vs. loc (cpoint p) < length line \<and> loc (cpoint p) < length factor)"
  using assms
proof (induction vs arbitrary: i out)
  case Nil
  then show ?case by simp
next
  case (Cons p ps)
  let ?out1 = "out\<lparr>Points := Points out @ [cpoint (deform loc line factor p)],
                    Radius := (Radius out)[i := cradius (deform loc line factor p)]\<rparr>"
  from Cons.prems(1) have rng: "loc (cpoint p) < length line" "loc (cpoint p) < length factor"
    by (auto simp: Let_def split: if_splits)
  with Cons.prems(1) have step: "manipulate_points loc line factor ps (i + 1) ?out1 = Inr out'"
    by (simp add: Let_def deform_def)
  have len: "(i + 1) + length ps \<le> length (Radius ?out1)"
    using Cons.prems(2) by simp
  have i: "i < length (Radius out)"
    using Cons.prems(2) by simp
  from Cons.IH [OF step len] rng i show ?case
    by (simp add: take_Suc_update)
qed

lemma offset_points_eq:
  assumes "count + length vs \<le> length (Radius out)"
  shows "offset_points v2 vs count out =
     (count + length vs,
      out\<lparr>Points := Points out @ map (cpoint \<circ> translate v2) vs,
          Radius := take count (Radius out) @ map cradius vs
             @ drop (count + length vs) (Radius out)\<rparr>)"
  using assms
proof (induction vs arbitrary: count out)
  case Nil
  then show ?case by simp
next
  case (Cons p ps)
  have c: "count < length (Radius out)"
    using Cons.prems by simp
  have "Suc count + length ps \<le> length (Radius (out\<lparr>Points := Points out @ [padd (cpoint p) v2],
            Radius := (Radius out)[count := cradius p]\<rparr>))"
    using Cons.prems by simp
  from Cons.IH [OF this] c show ?case
    by (simp add: take_Suc_update translate_def)
qed


lemma cloud_sizes_simps [simp]:
  "cloud_sizes [] = 0"
  "cloud_sizes (Some v # dvs) = length v + cloud_sizes dvs"
  "cloud_sizes (None # dvs) = cloud_sizes dvs"
  by (simp_all add: cloud_sizes_def)

lemma take_append_exact: "length xs = n \<Longrightarrow> take (n + k) (xs @ ys) = xs @ take k ys"
  by simp

lemma drop_append_exact: "length xs = n \<Longrightarrow> drop (n + k) (xs @ ys) = drop k ys"
  by simp

lemma points_translated:
  "map cpoint (translated loc line factor c b) =
   map (cpoint \<circ> translate (displacement_at loc line factor (position (hd c)))) b"
  by (simp add: translated_def)

lemma radii_translated: "map cradius (translated loc line factor c b) = map cradius b"
  by (simp add: translated_def translate_def)

lemma radii_translated_branches:
  "length bs \<le> length cs \<Longrightarrow>
   map cradius (translated_branches loc line factor cs bs) = concat (map (map cradius) bs)"
  by (induction loc line factor cs bs rule: translated_branches.induct)
     (simp_all add: radii_translated)

lemma offset_diverging_Inr:
  assumes "offset_diverging loc line factor dcs dvs j count out = Inr out'"
    and "count + cloud_sizes dvs \<le> length (Radius out)"
    and "j \<le> length dcs"
  shows "None \<notin> set dvs \<and> j + length dvs \<le> length dcs
       \<and> Points out' = Points out @
            map cpoint (translated_branches loc line factor (drop j dcs) (map the dvs))
       \<and> Radius out' = take count (Radius out) @ concat (map (map cradius) (map the dvs))
            @ drop (count + cloud_sizes dvs) (Radius out)
       \<and> (\<forall>c \<in> set (take (length dvs) (drop j dcs)).
             c \<noteq> [] \<and> loc (position (hd c)) < length line
             \<and> loc (position (hd c)) < length factor)"
  using assms
proof (induction dvs arbitrary: j count out)
  case Nil
  then show ?case by simp
next
  case (Cons dv dvs)
  from Cons.prems(1) have j: "j < length dcs"
    by (auto split: if_splits)
  with Cons.prems(1) obtain s rest where c: "dcs ! j = s # rest"
    by (cases "dcs ! j") auto
  from Cons.prems(1) j c have rng: "loc (position s) < length line" "loc (position s) < length factor"
    by (auto simp: Let_def split: if_splits)
  from Cons.prems(1) j c rng obtain voro where dv: "dv = Some voro"
    by (cases dv) (auto simp: Let_def)
  let ?v2 = "displacement_at loc line factor (position s)"
  let ?R = "Radius out"
  let ?out1 = "out\<lparr>Points := Points out @ map (cpoint \<circ> translate ?v2) voro,
          Radius := take count ?R @ map cradius voro @ drop (count + length voro) ?R\<rparr>"
  have fits: "count + length voro \<le> length ?R"
    using Cons.prems(2) dv by simp
  have op: "offset_points ?v2 voro count out = (count + length voro, ?out1)"
    using fits by (rule offset_points_eq)
  have step: "offset_diverging loc line factor dcs dvs (j + 1) (count + length voro) ?out1 = Inr out'"
    using Cons.prems(1) j c rng dv op by (simp add: Let_def displacement_at_def)
  have len1: "length (Radius ?out1) = length ?R"
    using fits by simp
  have fits1: "(count + length voro) + cloud_sizes dvs \<le> length (Radius ?out1)"
    using Cons.prems(2) dv len1 by simp
  have j1: "j + 1 \<le> length dcs"
    using j by simp
  note IH = Cons.IH [OF step fits1 j1]
  have dr: "drop j dcs = (s # rest) # drop (Suc j) dcs"
    using j c by (metis Cons_nth_drop_Suc)
  have tk: "take (count + length voro) (Radius ?out1) = take count ?R @ map cradius voro"
    using fits by simp
  have dp: "drop (count + length voro + cloud_sizes dvs) (Radius ?out1)
      = drop (count + length voro + cloud_sizes dvs) ?R"
  proof -
    have "length (take count ?R @ map cradius voro) = count + length voro"
      using fits by simp
    then have "drop ((count + length voro) + cloud_sizes dvs)
        ((take count ?R @ map cradius voro) @ drop (count + length voro) ?R)
        = drop (cloud_sizes dvs) (drop (count + length voro) ?R)"
      by (rule drop_append_exact)
    then show ?thesis by (simp add: add.commute add.left_commute)
  qed
  have none: "None \<notin> set (dv # dvs)"
    using IH [THEN conjunct1] dv by simp
  have bound: "j + length (dv # dvs) \<le> length dcs"
    using IH [THEN conjunct2, THEN conjunct1] by simp
  have pts: "Points out' = Points out @
      map cpoint (translated_branches loc line factor (drop j dcs) (map the (dv # dvs)))"
    using IH [THEN conjunct2, THEN conjunct2, THEN conjunct1] dv
    by (simp add: dr points_translated)
  have rad: "Radius out' = take count ?R @ concat (map (map cradius) (map the (dv # dvs)))
            @ drop (count + cloud_sizes (dv # dvs)) ?R"
    using IH [THEN conjunct2, THEN conjunct2, THEN conjunct2, THEN conjunct1]
    unfolding tk dp using dv by (simp add: add.assoc)
  have cs: "\<forall>c \<in> set (take (length (dv # dvs)) (drop j dcs)).
             c \<noteq> [] \<and> loc (position (hd c)) < length line
             \<and> loc (position (hd c)) < length factor"
    using IH [THEN conjunct2, THEN conjunct2, THEN conjunct2, THEN conjunct2] rng
    by (simp add: dr)
  from none bound pts rad cs show ?case by blast
qed


lemma sizes_result:
  "map_result (\<lambda>d. case d of None \<Rightarrow> Inl (Raises AttributeError) | Some voro \<Rightarrow> Inr (length voro)) dv
     = Inr ns \<Longrightarrow> None \<notin> set dv \<and> sum_list ns = cloud_sizes dv"
proof (induction dv arbitrary: ns)
  case Nil
  then show ?case by simp
next
  case (Cons d dv)
  then show ?case
    by (cases d) (auto split: sum.splits)
qed

lemma offset_diverging_None:
  "offset_diverging loc line factor dcs (None # dvs) j count out \<noteq> Inr out'"
  by (auto simp: Let_def split: if_splits list.splits)

lemma allocated_eq:
  "allocated n dv =
     (if dv = [] then Inl (Raises IndexError)
      else if hd dv = None then Inr n
      else bind_result
             (map_result (\<lambda>d. case d of None \<Rightarrow> Inl (Raises AttributeError)
                                     | Some voro \<Rightarrow> Inr (length voro)) dv)
             (\<lambda>ns. Inr (n + sum_list ns)))"
  by (cases dv) (simp_all add: allocated_def)

lemma allocated_Inr:
  "allocated n dv = Inr m \<Longrightarrow>
   dv \<noteq> [] \<and> (if hd dv = None then m = n else None \<notin> set dv \<and> m = n + cloud_sizes dv)"
  unfolding allocated_eq
  by (auto simp: bind_result_eq_Inr dest!: sizes_result split: if_splits)

lemma change_area_unfold:
  "change_area locator filt voronoi line method beta ratio percentage roi rp dc dv =
   bind_result (get_factor filt line method beta ratio percentage roi rp) (\<lambda>factor.
   bind_result (allocated (length voronoi) dv) (\<lambda>m.
   bind_result (manipulate_points (locator line) line factor voronoi 0
                  \<lparr>Points = [], Radius = replicate m 0\<rparr>) (\<lambda>out.
     case dc of
       None \<Rightarrow> Inr out
     | Some dcs \<Rightarrow>
         if length voronoi = 0 then Inl (Raises UnboundLocalError)
         else offset_diverging (locator line) line factor dcs dv 0 (length voronoi) out)))"
  unfolding change_area_def allocated_def Let_def
  by (cases "get_factor filt line method beta ratio percentage roi rp")
     (simp_all split: list.splits)


lemma change_area_Inr:
  assumes ok: "change_area locator filt voronoi line method beta ratio percentage roi rp dc dv = Inr out"
  obtains factor where
    "get_factor filt line method beta ratio percentage roi rp = Inr factor"
    "dv \<noteq> []"
    "\<forall>p \<in> set voronoi. locator line (cpoint p) < length line"
    "Points out = map (cpoint \<circ> deform (locator line) line factor) voronoi @
       (case dc of None \<Rightarrow> []
        | Some dcs \<Rightarrow> map cpoint (translated_branches (locator line) line factor dcs (map the dv)))"
    "Radius out = map (cradius \<circ> deform (locator line) line factor) voronoi @
       (case dc of None \<Rightarrow> replicate (if hd dv = None then 0 else cloud_sizes dv) 0
        | Some dcs \<Rightarrow> concat (map (map cradius) (map the dv)))"
    "\<forall>dcs. dc = Some dcs \<longrightarrow> voronoi \<noteq> [] \<and> None \<notin> set dv \<and> length dv \<le> length dcs
       \<and> (\<forall>c \<in> set (take (length dv) dcs). c \<noteq> [] \<and> locator line (position (hd c)) < length line)"
proof -
  let ?loc = "locator line"
  let ?n = "length voronoi"
  from ok obtain factor m out1 where
    f: "get_factor filt line method beta ratio percentage roi rp = Inr factor" and
    m: "allocated ?n dv = Inr m" and
    mp: "manipulate_points ?loc line factor voronoi 0 \<lparr>Points = [], Radius = replicate m 0\<rparr> = Inr out1" and
    rest: "(case dc of
       None \<Rightarrow> Inr out1
     | Some dcs \<Rightarrow>
         if ?n = 0 then Inl (Raises UnboundLocalError)
         else offset_diverging ?loc line factor dcs dv 0 ?n out1) = Inr out"
    unfolding change_area_unfold by (auto simp: bind_result_eq_Inr)
  from allocated_Inr [OF m] have dv: "dv \<noteq> []"
    and mval: "if hd dv = None then m = ?n else None \<notin> set dv \<and> m = ?n + cloud_sizes dv"
    by simp_all
  have nm: "0 + ?n \<le> length (Radius \<lparr>Points = [], Radius = replicate m 0\<rparr>)"
    using mval by (simp split: if_splits)
  note M = manipulate_points_Inr [OF mp nm]
  have p1: "Points out1 = map (cpoint \<circ> deform ?loc line factor) voronoi"
    using M [THEN conjunct1] by simp
  have r1: "Radius out1 = map (cradius \<circ> deform ?loc line factor) voronoi @ replicate (m - ?n) 0"
    using M [THEN conjunct2, THEN conjunct1] by simp
  have in1: "\<forall>p \<in> set voronoi. ?loc (cpoint p) < length line"
    using M [THEN conjunct2, THEN conjunct2] by simp
  show ?thesis
  proof (cases dc)
    case None
    with rest have "out = out1" by simp
    with None p1 r1 mval f dv in1 show ?thesis
      by (intro that [of factor]) (auto split: if_splits)
  next
    case (Some dcs)
    with rest have n0: "?n \<noteq> 0"
      and od: "offset_diverging ?loc line factor dcs dv 0 ?n out1 = Inr out"
      by (auto split: if_splits)
    have hd: "hd dv \<noteq> None"
    proof
      assume "hd dv = None"
      with dv obtain dvs where "dv = None # dvs"
        by (cases dv) auto
      with od show False
        by (simp only: offset_diverging_None)
    qed
    with mval have nn: "None \<notin> set dv" and mv: "m = ?n + cloud_sizes dv"
      by simp_all
    have fits: "?n + cloud_sizes dv \<le> length (Radius out1)"
      using r1 mv by simp
    note D = offset_diverging_Inr [OF od fits]
    have p2: "Points out = Points out1 @ map cpoint (translated_branches ?loc line factor dcs (map the dv))"
      using D [THEN conjunct2, THEN conjunct2, THEN conjunct1] by simp
    have r2: "Radius out = take ?n (Radius out1) @ concat (map (map cradius) (map the dv))
            @ drop (?n + cloud_sizes dv) (Radius out1)"
      using D [THEN conjunct2, THEN conjunct2, THEN conjunct2, THEN conjunct1] by simp
    have r3: "Radius out = map (cradius \<circ> deform ?loc line factor) voronoi
        @ concat (map (map cradius) (map the dv))"
      unfolding r2 r1 mv by simp
    have ln: "length dv \<le> length dcs"
      using D [THEN conjunct2, THEN conjunct1] by simp
    have cs: "\<forall>c \<in> set (take (length dv) dcs). c \<noteq> [] \<and> ?loc (position (hd c)) < length line"
      using D [THEN conjunct2, THEN conjunct2, THEN conjunct2, THEN conjunct2] by simp
    from Some f dv in1 p1 p2 r3 n0 nn ln cs show ?thesis
      by (intro that [of factor]) auto
  qed
qed


lemma manipulate_points_returns:
  "(\<forall>p \<in> set vs. loc (cpoint p) < length line \<and> loc (cpoint p) < length factor) \<Longrightarrow>
   \<exists>out'. manipulate_points loc line factor vs i out = Inr out'"
  by (induction vs arbitrary: i out) (simp_all add: Let_def)

lemma offset_diverging_returns:
  assumes "j + length bs \<le> length dcs"
    and "\<forall>c \<in> set (take (length bs) (drop j dcs)).
           c \<noteq> [] \<and> loc (position (hd c)) < length line \<and> loc (position (hd c)) < length factor"
  shows "\<exists>out'. offset_diverging loc line factor dcs (map Some bs) j count out = Inr out'"
  using assms
proof (induction bs arbitrary: j count out)
  case Nil
  then show ?case by simp
next
  case (Cons b bs)
  from Cons.prems(1) have j: "j < length dcs" by simp
  then have dr: "drop j dcs = dcs ! j # drop (Suc j) dcs"
    by (simp add: Cons_nth_drop_Suc)
  with Cons.prems(2) have c: "dcs ! j \<noteq> []"
    and rng: "loc (position (hd (dcs ! j))) < length line"
      "loc (position (hd (dcs ! j))) < length factor"
    and others: "\<forall>c \<in> set (take (length bs) (drop (j + 1) dcs)).
           c \<noteq> [] \<and> loc (position (hd c)) < length line \<and> loc (position (hd c)) < length factor"
    by simp_all
  from c obtain s rest where sr: "dcs ! j = s # rest"
    by (cases "dcs ! j") auto
  have j1: "(j + 1) + length bs \<le> length dcs"
    using Cons.prems(1) by simp
  from Cons.IH [OF j1 others] j sr rng show ?case
    by (simp add: Let_def split: prod.splits)
qed

lemma polydata_eq: "(out :: polydata) = \<lparr>Points = Points out, Radius = Radius out\<rparr>"
  by simp

lemma allocated_Some:
  assumes "bs \<noteq> []"
  shows "allocated n (map Some bs) = Inr (n + cloud_sizes (map Some bs))"
proof -
  have a: "map_result (\<lambda>d. case d of None \<Rightarrow> Inl (Raises AttributeError)
                                     | Some voro \<Rightarrow> Inr (length voro)) (map Some bs)
      = Inr (map length bs)" for bs :: "voronoi list"
    by (induction bs) simp_all
  have b: "sum_list (map length bs) = cloud_sizes (map Some bs)" for bs :: "voronoi list"
    by (induction bs) simp_all
  from assms have c: "map Some bs \<noteq> []" "hd (map Some bs) \<noteq> None"
    by (cases bs; simp)+
  show ?thesis
    unfolding allocated_eq a using c by (auto simp: b)
qed

lemma change_area_returns:
  assumes f: "get_factor filt line method beta ratio percentage roi rp = Inr factor"
    and main: "\<forall>p \<in> set voronoi. locator line (cpoint p) < length line"
    and branches: "case dc of
        None \<Rightarrow> dv = [None]
      | Some dcs \<Rightarrow> voronoi \<noteq> [] \<and> dv \<noteq> [] \<and> None \<notin> set dv \<and> length dv \<le> length dcs
          \<and> (\<forall>c \<in> set (take (length dv) dcs).
                c \<noteq> [] \<and> locator line (position (hd c)) < length line)"
  shows "\<exists>out. change_area locator filt voronoi line method beta ratio percentage roi rp dc dv = Inr out"
proof -
  let ?loc = "locator line"
  have lf: "length factor = length line"
    using f by (rule get_factor_length)
  have "\<forall>p \<in> set voronoi. ?loc (cpoint p) < length line \<and> ?loc (cpoint p) < length factor"
    using main lf by simp
  from manipulate_points_returns [OF this] have
    mp: "\<exists>out'. manipulate_points ?loc line factor voronoi 0 \<lparr>Points = [], Radius = replicate m 0\<rparr> = Inr out'" for m
    by blast
  show ?thesis
  proof (cases dc)
    case None
    with branches have "allocated (length voronoi) dv = Inr (length voronoi)"
      by (simp add: allocated_eq)
    with None f mp show ?thesis
      unfolding change_area_unfold by (auto simp: bind_result_eq_Inr)
  next
    case (Some dcs)
    with branches have ne: "voronoi \<noteq> []" and dv: "dv \<noteq> []" "None \<notin> set dv"
      and ln: "length dv \<le> length dcs"
      and cs: "\<forall>c \<in> set (take (length dv) dcs).
                c \<noteq> [] \<and> ?loc (position (hd c)) < length line"
      by simp_all
    from dv(2) have bs: "dv = map Some (map the dv)"
      by (induction dv) auto
    have al: "allocated (length voronoi) dv = Inr (length voronoi + cloud_sizes dv)"
      using allocated_Some [of "map the dv" "length voronoi"] dv(1) bs by simp
    have c0: "0 + length (map the dv) \<le> length dcs"
      using ln by simp
    have c1: "\<forall>c \<in> set (take (length (map the dv)) (drop 0 dcs)).
           c \<noteq> [] \<and> ?loc (position (hd c)) < length line \<and> ?loc (position (hd c)) < length factor"
      using cs lf by simp
    from offset_diverging_returns [OF c0 c1] bs have
      od: "\<exists>out'. offset_diverging ?loc line factor dcs dv 0 count out1 = Inr out'" for count out1
      by metis
    from Some f al ne mp od show ?thesis
      unfolding change_area_unfold by (simp add: bind_result_eq_Inr) metis
  qed
qed


subsection \<open>Runs that return\<close>

lemma change_area_eq:
  assumes f: "get_factor filt line method beta ratio percentage roi rp = Inr factor"
    and main: "\<forall>p \<in> set voronoi. locator line (cpoint p) < length line"
    and branches: "case dc of
        None \<Rightarrow> dv = [None]
      | Some dcs \<Rightarrow> voronoi \<noteq> [] \<and> dv \<noteq> [] \<and> None \<notin> set dv \<and> length dv \<le> length dcs
          \<and> (\<forall>c \<in> set (take (length dv) dcs).
                c \<noteq> [] \<and> locator line (position (hd c)) < length line)"
  shows "change_area locator filt voronoi line method beta ratio percentage roi rp dc dv =
     Inr \<lparr>Points = map (cpoint \<circ> deform (locator line) line factor) voronoi @
             (case dc of None \<Rightarrow> []
              | Some dcs \<Rightarrow> map cpoint (translated_branches (locator line) line factor dcs
                                        (map the dv))),
          Radius = map (cradius \<circ> deform (locator line) line factor) voronoi @
             (case dc of None \<Rightarrow> []
              | Some dcs \<Rightarrow> concat (map (map cradius) (map the dv)))\<rparr>"
proof -
  from change_area_returns [where locator = locator and line = line, OF f main branches]
  obtain out where
    ok: "change_area locator filt voronoi line method beta ratio percentage roi rp dc dv = Inr out"
    by blast
  from ok obtain factor' where
    f': "get_factor filt line method beta ratio percentage roi rp = Inr factor'" and
    p: "Points out = map (cpoint \<circ> deform (locator line) line factor') voronoi @
       (case dc of None \<Rightarrow> []
        | Some dcs \<Rightarrow> map cpoint (translated_branches (locator line) line factor' dcs (map the dv)))" and
    r: "Radius out = map (cradius \<circ> deform (locator line) line factor') voronoi @
       (case dc of None \<Rightarrow> replicate (if hd dv = None then 0 else cloud_sizes dv) 0
        | Some dcs \<Rightarrow> concat (map (map cradius) (map the dv)))"
    by (rule change_area_Inr)
  from f f' have ff: "factor' = factor" by simp
  have r': "Radius out = map (cradius \<circ> deform (locator line) line factor) voronoi @
             (case dc of None \<Rightarrow> []
              | Some dcs \<Rightarrow> concat (map (map cradius) (map the dv)))"
    using r branches unfolding ff by (cases dc) simp_all
  have "out = \<lparr>Points = Points out, Radius = Radius out\<rparr>"
    by (rule polydata_eq)
  then show ?thesis
    unfolding ok p r' ff by simp
qed

lemma example_factor:
  "get_factor no_smoothing example_line ''variation'' 1 None 50 ''manual'' [] = Inr [1/2, 1, 3/2]"
proof -
  have a: "smoothed_area no_smoothing example_line = [1, 2, 3]"
    by (simp add: example_line_def)
  have n: "length [1, 2, 3 :: real] = 3"
    by simp
  have m: "np_mean [1, 2, 3] = 2"
    by (simp add: np_mean_def)
  have rt: "py_round_tenth 3 = 0"
    by (simp add: py_round_tenth_def)
  have rp: "replicate 3 (0::real) = [0, 0, 0]"
    by (simp add: numeral_eq_Suc)
  have t: "transition ''manual'' ''variation'' 3 = Inr [0, 0, 0]"
    by (simp add: transition_eq rt linspace_def rp)
  have v: "variation_factor [1, 2, 3] 2 1 [0, 0, 0] = Inr [1/2, 1, 3/2]"
    by (simp add: variation_factor_def np_divide_def np_power_def blend_def)
  show ?thesis
    unfolding get_factor_def Let_def a n m t by (simp add: v)
qed


lemma example_nearest:
  "nearest_index example_line (0, 1, 0) = 0"
  "nearest_index example_line (2, 2, 0) = 2"
  "nearest_index example_line (2, 1, 0) = 2"
  by (simp_all add: example_line_def line_of_def sqdist_def psub_def)

lemma example_change_area:
  "change_area nearest_index no_smoothing example_voronoi example_line ''variation'' 1 None 50
     ''manual'' [] (Some [example_branch_line]) [Some example_branch] =
   Inr \<lparr>Points = [(0, 1/2, 0), (2, 3, 0), (2, 5/2, 0), (3, 7/2, 0)],
        Radius = [1/2, 3, 1/2, 1/4]\<rparr>"
proof -
  have main: "\<forall>p \<in> set example_voronoi. nearest_index example_line (cpoint p) < length example_line"
    by (simp add: example_voronoi_def example_nearest) (simp add: example_line_def line_of_def)
  have branches: "case Some [example_branch_line] of
        None \<Rightarrow> [Some example_branch] = [None]
      | Some dcs \<Rightarrow> example_voronoi \<noteq> [] \<and> [Some example_branch] \<noteq> []
          \<and> None \<notin> set [Some example_branch] \<and> length [Some example_branch] \<le> length dcs
          \<and> (\<forall>c \<in> set (take (length [Some example_branch]) dcs).
                c \<noteq> [] \<and> nearest_index example_line (position (hd c)) < length example_line)"
    by (simp add: example_voronoi_def example_branch_line_def example_nearest)
       (simp add: example_line_def line_of_def)
  have l: "example_line ! 0 = \<lparr>position = (0, 0, 0), abscissa = 0, CenterlineSectionArea = 1\<rparr>"
    "example_line ! 2 = \<lparr>position = (2, 0, 0), abscissa = 2, CenterlineSectionArea = 3\<rparr>"
    by (simp_all add: example_line_def line_of_def)
  show ?thesis
    unfolding change_area_eq [where locator = nearest_index and line = example_line,
        OF example_factor main branches]
    by (simp add: example_voronoi_def example_branch_def example_branch_line_def deform_def
          translated_def translate_def displacement_at_def example_nearest l
          padd_def psub_def pscale_def)
qed


subsection \<open>The main cloud\<close>




lemma cloud_sizes_concat: "None \<notin> set dv \<Longrightarrow> cloud_sizes dv = length (concat (map the dv))"
proof (induction dv)
  case Nil
  then show ?case by simp
next
  case (Cons d dv)
  then show ?case by (cases d) simp_all
qed

lemma cloud_sizes_None: "\<forall>d \<in> set dv. d = None \<Longrightarrow> cloud_sizes dv = 0"
  by (induction dv) simp_all

lemma concat_radii: "concat (map (map cradius) bs) = map cradius (concat bs)"
  by (simp add: map_concat)

subsection \<open>The side branches\<close>

text \<open>
  Claim C5: in a run with diverging centerlines that returns, the output after the main
  cloud is the side branches in order, each translated as a whole by the displacement
  \<open>(centerline[k] - a) * (1 - factor[k])\<close> at the first sample \<open>a\<close> of its centerline, and
  the radii after the main cloud are those of the branches, unchanged.
\<close>

theorem change_area_branches:
  assumes ok: "change_area locator filt voronoi line method beta ratio percentage roi rp
                 (Some dcs) dv = Inr out"
    and f: "get_factor filt line method beta ratio percentage roi rp = Inr factor"
  shows "None \<notin> set dv \<and> length dv \<le> length dcs
       \<and> drop (length voronoi) (Points out) =
           map cpoint (translated_branches (locator line) line factor dcs (map the dv))
       \<and> drop (length voronoi) (Radius out) = map cradius (concat (map the dv))"
proof -
  let ?loc = "locator line"
  from ok obtain factor' where
    f': "get_factor filt line method beta ratio percentage roi rp = Inr factor'" and
    p: "Points out = map (cpoint \<circ> deform ?loc line factor') voronoi @
       (case Some dcs of None \<Rightarrow> []
        | Some dcs \<Rightarrow> map cpoint (translated_branches ?loc line factor' dcs (map the dv)))" and
    r: "Radius out = map (cradius \<circ> deform ?loc line factor') voronoi @
       (case Some dcs of None \<Rightarrow> replicate (if hd dv = None then 0 else cloud_sizes dv) 0
        | Some dcs \<Rightarrow> concat (map (map cradius) (map the dv)))" and
    b: "\<forall>dcs'. Some dcs = Some dcs' \<longrightarrow> voronoi \<noteq> [] \<and> None \<notin> set dv \<and> length dv \<le> length dcs'
       \<and> (\<forall>c \<in> set (take (length dv) dcs'). c \<noteq> [] \<and> ?loc (position (hd c)) < length line)"
    by (rule change_area_Inr)
  from f f' have ff: "factor' = factor" by simp
  from b have "None \<notin> set dv" "length dv \<le> length dcs"
    by simp_all
  moreover have "drop (length voronoi) (Points out) =
           map cpoint (translated_branches ?loc line factor dcs (map the dv))"
    unfolding p ff by simp
  moreover have "drop (length voronoi) (Radius out) = map cradius (concat (map the dv))"
    unfolding r concat_radii by simp
  ultimately show ?thesis by blast
qed

theorem change_area_branches_witness:
  "change_area nearest_index no_smoothing example_voronoi example_line ''variation'' 1 None 50
     ''manual'' [] (Some [example_branch_line]) [Some example_branch] =
   Inr \<lparr>Points = [(0, 1/2, 0), (2, 3, 0), (2, 5/2, 0), (3, 7/2, 0)],
        Radius = [1/2, 3, 1/2, 1/4]\<rparr>
   \<and> get_factor no_smoothing example_line ''variation'' 1 None 50 ''manual'' [] = Inr [1/2, 1, 3/2]
   \<and> drop (length example_voronoi) [(0, 1/2, 0), (2, 3, 0), (2, 5/2, 0), (3, 7/2, 0)] =
       map cpoint (translated_branches (nearest_index example_line) example_line [1/2, 1, 3/2]
                     [example_branch_line] (map the [Some example_branch]))
   \<and> drop (length example_voronoi) [1/2, 3, 1/2, 1/4] =
       map cradius (concat (map the [Some example_branch]))
   \<and> displacement_at (nearest_index example_line) example_line [1/2, 1, 3/2]
         (position (hd example_branch_line)) = (0, 1/2, 0)"
proof -
  have d: "displacement_at (nearest_index example_line) example_line [1/2, 1, 3/2]
         (position (hd example_branch_line)) = (0, 1/2, 0)"
    by (simp add: displacement_at_def example_branch_line_def example_nearest psub_def pscale_def)
       (simp add: example_line_def line_of_def)
  from change_area_branches [where locator = nearest_index and line = example_line,
      OF example_change_area example_factor] example_change_area example_factor d
  show ?thesis
    by simp
qed

lemma length_translated_branches:
  "length bs \<le> length cs \<Longrightarrow>
   length (translated_branches loc line factor cs bs) = length (concat bs)"
  by (induction loc line factor cs bs rule: translated_branches.induct)
     (simp_all add: translated_def)

lemma zip_fields: "zip (map cpoint qs) (map cradius qs) = map (\<lambda>q. (cpoint q, cradius q)) qs"
  by (induction qs) simp_all

subsection \<open>The assembled output\<close>



lemma example_change_area_alone:
  "change_area nearest_index no_smoothing example_voronoi example_line ''variation'' 1 None 50
     ''manual'' [] None [None] =
   Inr \<lparr>Points = [(0, 1/2, 0), (2, 3, 0)], Radius = [1/2, 3]\<rparr>"
proof -
  have main: "\<forall>p \<in> set example_voronoi. nearest_index example_line (cpoint p) < length example_line"
    by (simp add: example_voronoi_def example_nearest) (simp add: example_line_def line_of_def)
  have branches: "case None :: centerline list option of
        None \<Rightarrow> [None :: voronoi option] = [None]
      | Some dcs \<Rightarrow> example_voronoi \<noteq> [] \<and> [None :: voronoi option] \<noteq> []
          \<and> None \<notin> set [None :: voronoi option] \<and> length [None :: voronoi option] \<le> length dcs
          \<and> (\<forall>c \<in> set (take (length [None :: voronoi option]) dcs).
                c \<noteq> [] \<and> nearest_index example_line (position (hd c)) < length example_line)"
    by simp
  have l: "example_line ! 0 = \<lparr>position = (0, 0, 0), abscissa = 0, CenterlineSectionArea = 1\<rparr>"
    "example_line ! 2 = \<lparr>position = (2, 0, 0), abscissa = 2, CenterlineSectionArea = 3\<rparr>"
    by (simp_all add: example_line_def line_of_def)
  show ?thesis
    unfolding change_area_eq [where locator = nearest_index and line = example_line,
        OF example_factor main branches]
    by (simp add: example_voronoi_def deform_def example_nearest l padd_def psub_def pscale_def)
qed


lemma blend_ones: "blend (replicate (length ts) 1) ts = replicate (length ts) 1"
  by (induction ts) (simp_all add: blend_def)

lemma area_factor_zero: "area_factor 0 ts = Inr (replicate (length ts) 1)"
  by (simp add: area_factor_def blend_ones)

lemma get_factor_area_zero:
  "get_factor filt line ''area'' beta ratio 0 roi rp = Inr (replicate (length line) 1)"
proof -
  obtain ts where ts: "transition roi ''area'' (length line) = Inr ts"
    using transition_eq by blast
  then have "length ts = length line"
    by (rule transition_length)
  with ts show ?thesis
    unfolding get_factor_def Let_def by (simp add: area_factor_zero)
qed

lemma padd_zero: "padd p (pscale v 0) = p"
  by (cases p; cases v) (simp add: padd_def pscale_def)

lemma deform_identity: "factor ! loc (cpoint p) = 1 \<Longrightarrow> deform loc line factor p = p"
  by (simp add: deform_def padd_zero)

subsection \<open>No change of area\<close>


lemma example_identity:
  "change_area nearest_index no_smoothing example_voronoi example_line ''area'' 1 None 0
     ''manual'' [] None [None] =
   Inr \<lparr>Points = [(0, 1, 0), (2, 2, 0)], Radius = [1, 2]\<rparr>"
proof -
  have f: "get_factor no_smoothing example_line ''area'' 1 None 0 ''manual'' [] = Inr [1, 1, 1]"
    by (simp add: get_factor_area_zero example_line_def numeral_eq_Suc)
  have main: "\<forall>p \<in> set example_voronoi. nearest_index example_line (cpoint p) < length example_line"
    by (simp add: example_voronoi_def example_nearest) (simp add: example_line_def line_of_def)
  have branches: "case None :: centerline list option of
        None \<Rightarrow> [None :: voronoi option] = [None]
      | Some dcs \<Rightarrow> example_voronoi \<noteq> [] \<and> [None :: voronoi option] \<noteq> []
          \<and> None \<notin> set [None :: voronoi option] \<and> length [None :: voronoi option] \<le> length dcs
          \<and> (\<forall>c \<in> set (take (length [None :: voronoi option]) dcs).
                c \<noteq> [] \<and> nearest_index example_line (position (hd c)) < length example_line)"
    by simp
  show ?thesis
    unfolding change_area_eq [where locator = nearest_index and line = example_line,
        OF f main branches]
    by (simp add: example_voronoi_def deform_def example_nearest padd_def psub_def pscale_def
          split: prod.splits)
qed



subsection \<open>The transition\<close>

lemma transition_weights: "transition roi method n = Inr (transition_weights roi method n)"
  unfolding transition_weights_def Let_def transition_eq by simp

lemma length_transition_weights [simp]: "length (transition_weights roi method n) = n"
  using transition_length [OF transition_weights] .

lemma bind_result_assoc:
  "bind_result (bind_result r f) g = bind_result r (\<lambda>x. bind_result (f x) g)"
  by (cases r) simp_all

lemma get_factor_blend:
  "get_factor filt line method beta ratio percentage roi rp =
   bind_result (raw_factor filt line method beta ratio percentage rp)
     (\<lambda>raw. Inr (blend raw (transition_weights roi method (length line))))"
  unfolding get_factor_def raw_factor_def Let_def length_smoothed_area transition_weights
    bind_result_Inr variation_factor_def sine_factor_def linear_factor_def area_factor_def
    length_transition_weights
  by (simp add: bind_result_assoc split: option.splits)

lemma linspace_nth:
  "2 \<le> k \<Longrightarrow> i < k \<Longrightarrow> linspace a b k ! i = a + real i * ((b - a) / real (k - 1))"
  by (simp add: linspace_def)


lemma length_straight_line [simp]: "length (straight_line n) = n"
  by (simp add: straight_line_def)

lemma blend_zeros: "blend raw (replicate (length raw) 0) = raw"
  by (induction raw) (simp_all add: blend_def)

lemma rt30: "py_round_tenth 30 = 3"
  by (simp add: py_round_tenth_def)

lemma ramp_leading:
  assumes "2 \<le> k" "i < k"
  shows "(linspace 1 0 k @ zs @ linspace 0 1 k) ! i = 1 - real i / real (k - 1)"
  using assms by (simp add: nth_append linspace_nth)

lemma ramp_trailing:
  assumes "2 \<le> k" "i < k" "length zs + k = m"
  shows "(zs @ linspace 0 1 k) ! (m - 1 - i) = 1 - real i / real (k - 1)"
proof -
  have idx: "m - 1 - i = length zs + (k - 1 - i)"
    using assms by simp
  have "(zs @ linspace 0 1 k) ! (length zs + (k - 1 - i)) = linspace 0 1 k ! (k - 1 - i)"
    by simp
  also have "\<dots> = real (k - 1 - i) / real (k - 1)"
    using assms by (simp add: linspace_nth)
  also have "\<dots> = 1 - real i / real (k - 1)"
    using assms by (simp add: of_nat_diff field_simps)
  finally show ?thesis
    unfolding idx .
qed

text \<open>
  Claim C2, as amended: the factor is the raw factor blended with the transition weights,
  \<open>raw * (1 - w) + 1 * w\<close>. For the methods \<^verbatim>\<open>"area"\<close> and \<^verbatim>\<open>"variation"\<close>, with
  \<open>k\<close> the rounded tenth of the samples and \<open>k \<ge> 2\<close>, the weight is 1 at the boundary
  sample and falls linearly to 0 at the \<open>k\<close>-th sample from it, at both ends or, for
  \<^verbatim>\<open>"first_line"\<close>, at the trailing end only; it is 0 in between. For the method
  \<^verbatim>\<open>"stenosis"\<close> with a region given by hand or on the command line all weights are 0.
\<close>

theorem get_factor_transition:
  assumes k: "k = py_round_tenth (length line)" "2 \<le> k"
    and i: "i < k"
    and m: "method \<in> set [''area'', ''variation'']"
    and r: "roi \<in> set [''manual'', ''commandline'', ''first_line'']"
  shows "get_factor filt line method beta ratio percentage roi rp =
           bind_result (raw_factor filt line method beta ratio percentage rp)
             (\<lambda>raw. Inr (map2 (\<lambda>f w. f * (1 - w) + 1 * w) raw
                          (transition_weights roi method (length line))))
       \<and> transition roi method (length line) = Inr (transition_weights roi method (length line))
       \<and> transition_weights roi method (length line) ! (length line - 1 - i)
           = 1 - real i / real (k - 1)
       \<and> (if roi = ''first_line''
          then \<forall>j < length line - k. transition_weights roi method (length line) ! j = 0
          else transition_weights roi method (length line) ! i = 1 - real i / real (k - 1)
             \<and> (\<forall>j. k \<le> j \<and> j < length line - k \<longrightarrow>
                    transition_weights roi method (length line) ! j = 0))
       \<and> transition ''manual'' ''stenosis'' (length line) = Inr (replicate (length line) 0)
       \<and> transition ''commandline'' ''stenosis'' (length line) = Inr (replicate (length line) 0)"
proof -
  let ?n = "length line"
  have k2: "k * 2 \<le> ?n" and kn: "k \<le> ?n"
    using py_round_tenth_double [of ?n] py_round_tenth_le [of ?n] k(1) by simp_all
  have a: "get_factor filt line method beta ratio percentage roi rp =
           bind_result (raw_factor filt line method beta ratio percentage rp)
             (\<lambda>raw. Inr (map2 (\<lambda>f w. f * (1 - w) + 1 * w) raw
                          (transition_weights roi method ?n)))"
    unfolding get_factor_blend blend_def by simp
  have b: "transition roi method ?n = Inr (transition_weights roi method ?n)"
    by (rule transition_weights)
  have s: "transition ''manual'' ''stenosis'' ?n = Inr (replicate ?n 0)"
    "transition ''commandline'' ''stenosis'' ?n = Inr (replicate ?n 0)"
    by (simp_all add: transition_eq)
  show ?thesis
  proof (cases "roi = ''first_line''")
    case True
    then have w: "transition_weights roi method ?n = replicate (?n - k) 0 @ linspace 0 1 k"
      by (simp add: transition_weights_def Let_def k(1))
    have t: "(replicate (?n - k) 0 @ linspace 0 1 k) ! (?n - 1 - i) = 1 - real i / real (k - 1)"
      using k(2) i kn by (intro ramp_trailing) simp_all
    have z: "\<forall>j < ?n - k. (replicate (?n - k) (0::real) @ linspace 0 1 k) ! j = 0"
      by (simp add: nth_append)
    from a b s True t z show ?thesis
      unfolding w by simp
  next
    case False
    with m r have w: "transition_weights roi method ?n =
        linspace 1 0 k @ replicate (?n - k * 2) 0 @ linspace 0 1 k"
      by (auto simp: transition_weights_def Let_def k(1))
    have l: "(linspace 1 0 k @ replicate (?n - k * 2) 0 @ linspace 0 1 k) ! i
        = 1 - real i / real (k - 1)"
      using k(2) i by (rule ramp_leading)
    have "((linspace 1 0 k @ replicate (?n - k * 2) 0) @ linspace 0 1 k) ! (?n - 1 - i)
        = 1 - real i / real (k - 1)"
      using k(2) i k2 by (intro ramp_trailing) simp_all
    then have t: "(linspace 1 0 k @ replicate (?n - k * 2) 0 @ linspace 0 1 k) ! (?n - 1 - i)
        = 1 - real i / real (k - 1)"
      by simp
    have z: "\<forall>j. k \<le> j \<and> j < ?n - k \<longrightarrow>
        (linspace 1 0 k @ replicate (?n - k * 2) (0::real) @ linspace 0 1 k) ! j = 0"
      using k2 by (auto simp: nth_append)
    from a b s False l t z show ?thesis
      unfolding w by simp
  qed
qed


theorem get_factor_transition_witness:
  "py_round_tenth (length (straight_line 30)) = 3
   \<and> transition ''manual'' ''area'' 30 = Inr (transition_weights ''manual'' ''area'' 30)
   \<and> transition_weights ''manual'' ''area'' 30 ! 0 = 1
   \<and> transition_weights ''manual'' ''area'' 30 ! 1 = 1 / 2
   \<and> transition_weights ''manual'' ''area'' 30 ! 2 = 0
   \<and> transition_weights ''manual'' ''area'' 30 ! 27 = 0
   \<and> transition_weights ''manual'' ''area'' 30 ! 28 = 1 / 2
   \<and> transition_weights ''manual'' ''area'' 30 ! 29 = 1"
proof -
  have k: "3 = py_round_tenth (length (straight_line 30))" "(2::nat) \<le> 3"
    by (simp_all add: rt30)
  have m: "''area'' \<in> set [''area'', ''variation'']"
    and r: "''manual'' \<in> set [''manual'', ''commandline'', ''first_line'']"
    by simp_all
  have i: "(0::nat) < 3" "(1::nat) < 3" "(2::nat) < 3"
    by simp_all
  from get_factor_transition [OF k i(1) m r] get_factor_transition [OF k i(2) m r]
    get_factor_transition [OF k i(3) m r] k(1)
  show ?thesis
    by simp
qed

lemma length_sine_profile [simp]: "length (sine_profile percentage n) = n"
  by (simp add: sine_profile_def)

theorem get_factor_transition_counterexample:
  "py_round_tenth 30 = 3
   \<and> transition ''manual'' ''stenosis'' 30 = Inr (replicate 30 0)
   \<and> raw_factor no_smoothing (straight_line 30) ''stenosis'' 0 None 50 [0, 0, 0]
       = Inr (sine_profile 50 30)
   \<and> get_factor no_smoothing (straight_line 30) ''stenosis'' 0 None 50 ''manual'' [0, 0, 0]
       = Inr (sine_profile 50 30)
   \<and> sine_profile 50 30 ! 1 = 1 - sin (pi / 29) / 2
   \<and> sine_profile 50 30 ! 1 \<noteq> sine_profile 50 30 ! 1 * (1 - 1 / 2) + 1 * (1 / 2)"
proof -
  have t: "transition ''manual'' ''stenosis'' 30 = Inr (replicate 30 0)"
    by (simp add: transition_eq)
  have w: "transition_weights ''manual'' ''stenosis'' 30 = replicate 30 0"
    by (simp add: transition_weights_def)
  have raw: "raw_factor no_smoothing (straight_line 30) ''stenosis'' 0 None 50 [0, 0, 0]
       = Inr (sine_profile 50 30)"
    by (simp add: raw_factor_def sine_profile_def)
  have "blend (sine_profile 50 30) (replicate (length (sine_profile 50 30)) 0) = sine_profile 50 30"
    by (rule blend_zeros)
  then have b: "blend (sine_profile 50 30) (replicate 30 0) = sine_profile 50 30"
    by simp
  have g: "get_factor no_smoothing (straight_line 30) ''stenosis'' 0 None 50 ''manual'' [0, 0, 0]
       = Inr (sine_profile 50 30)"
    unfolding get_factor_blend raw by (simp add: w b)
  have l: "linspace 0 pi 30 ! Suc 0 = pi / 29"
    using linspace_nth [of 30 1 0 pi] by simp
  have v: "sine_profile 50 30 ! 1 = 1 - sin (pi / 29) / 2"
    by (simp add: sine_profile_def l)
  have "0 < sin (pi / 29)"
    by (intro sin_gt_zero) simp_all
  then have d: "sine_profile 50 30 ! 1 \<noteq> sine_profile 50 30 ! 1 * (1 - 1 / 2) + 1 * (1 / 2)"
    unfolding v by argo
  from rt30 t raw g v d show ?thesis
    by blast
qed


subsection \<open>The method variation\<close>

lemma sum_list_positive: "xs \<noteq> [] \<Longrightarrow> \<forall>x \<in> set xs. 0 < x \<Longrightarrow> 0 < sum_list (xs :: real list)"
proof (induction xs)
  case Nil
  then show ?case by simp
next
  case (Cons x xs)
  then show ?case
    by (cases xs) (simp_all add: add_pos_pos)
qed

lemma np_mean_positive: "xs \<noteq> [] \<Longrightarrow> \<forall>x \<in> set xs. 0 < x \<Longrightarrow> 0 < np_mean xs"
  by (simp add: np_mean_def sum_list_positive)

lemma np_power_positive: "0 < x \<Longrightarrow> np_power x b = Inr (x powr b)"
  by (simp add: np_power_def)

lemma variation_elements:
  assumes "\<forall>a \<in> set area. 0 < a"
  shows "map_result (\<lambda>a. bind_result (np_divide a (np_mean area)) (\<lambda>x. np_power x b)) area
         = Inr (variation_raw area b)"
  unfolding variation_raw_def Let_def
proof (rule map_result_total)
  fix a
  assume a: "a \<in> set area"
  then have "area \<noteq> []" by auto
  with assms have m: "0 < np_mean area"
    by (simp add: np_mean_positive)
  from a assms have "0 < a" by simp
  with m have "0 < a / np_mean area" by simp
  with m show "bind_result (np_divide a (np_mean area)) (\<lambda>x. np_power x b)
      = Inr ((a / np_mean area) powr b)"
    by (simp add: np_divide_def np_power_positive)
qed

lemma beta_of_ratio_closed_form:
  assumes pos: "\<forall>a \<in> set area. 0 < a" and ne: "area \<noteq> []" and r: "0 < r"
    and d: "Max (set area) \<noteq> Min (set area)"
  shows "beta_of_ratio area r = Inr (closed_form_beta area r)"
proof -
  have mn: "0 < Min (set area)" and mx: "0 < Max (set area)"
    using pos ne by simp_all
  then have q: "0 < Max (set area) / Min (set area)"
    by simp
  have "Max (set area) / Min (set area) \<noteq> 1"
    using d mn by simp
  with q have l: "ln (Max (set area) / Min (set area)) \<noteq> 0"
    by simp
  have d1: "np_divide (Max (set area)) (Min (set area)) = Inr (Max (set area) / Min (set area))"
    using mn by (simp add: np_divide_def)
  have l1: "math_log r = Inr (ln r)"
    using r by (simp add: math_log_def)
  have l2: "math_log (Max (set area) / Min (set area)) = Inr (ln (Max (set area) / Min (set area)))"
    using q by (simp add: math_log_def)
  have dv: "py_div (ln r) (ln (Max (set area) / Min (set area)))
      = Inr (ln r / ln (Max (set area) / Min (set area)))"
    using l by (simp add: py_div_def)
  show ?thesis
    unfolding beta_of_ratio_def closed_form_beta_def Let_def l1 d1 bind_result_Inr l2 dv
    using ne by simp
qed



subsection \<open>Unknown method and region names\<close>

lemma raw_factor_length:
  assumes "raw_factor filt line method beta ratio percentage rp = Inr raw"
  shows "length raw = length line"
  using assms unfolding raw_factor_def Let_def
  by (auto simp: bind_result_eq_Inr get_curvilinear_coordinate_def
        dest!: map_result_length split: if_splits option.splits)

lemma transition_weights_unknown:
  "roi \<notin> set [''manual'', ''commandline'', ''first_line''] \<Longrightarrow>
   transition_weights roi method n = replicate n 0"
  by (simp add: transition_weights_def)

lemma get_factor_unknown_region:
  assumes "roi \<notin> set [''manual'', ''commandline'', ''first_line'']"
  shows "get_factor filt line method beta ratio percentage roi rp =
         raw_factor filt line method beta ratio percentage rp"
proof (cases "raw_factor filt line method beta ratio percentage rp")
  case (Inl e)
  then show ?thesis
    unfolding get_factor_blend by simp
next
  case (Inr raw)
  then have "length raw = length line"
    by (rule raw_factor_length)
  with blend_zeros [of raw] have "blend raw (replicate (length line) 0) = raw"
    by simp
  with Inr show ?thesis
    unfolding get_factor_blend transition_weights_unknown [OF assms] by simp
qed

text \<open>
  Claim C9, as amended: a method name other than \<^verbatim>\<open>"variation"\<close>, \<^verbatim>\<open>"stenosis"\<close> and
  \<^verbatim>\<open>"area"\<close> makes \<^verbatim>\<open>get_factor\<close> fail with \<^verbatim>\<open>UnboundLocalError\<close>, at its return
  statement, where \<^verbatim>\<open>factor\<close> was never assigned. A region mode other than \<^verbatim>\<open>"manual"\<close>,
  \<^verbatim>\<open>"commandline"\<close> and \<^verbatim>\<open>"first_line"\<close> is not rejected by \<^verbatim>\<open>get_factor\<close>: it returns
  the raw factor, with no transition. On the command line both are refused by the choices
  of the argument parser, which exits.
\<close>

theorem unknown_names:
  "(method \<notin> set [''variation'', ''stenosis'', ''area''] \<longrightarrow>
      get_factor filt line method beta ratio percentage roi rp = Inl (Raises UnboundLocalError))
   \<and> (roi \<notin> set [''manual'', ''commandline'', ''first_line''] \<longrightarrow>
      get_factor filt line method beta ratio percentage roi rp =
      raw_factor filt line method beta ratio percentage rp)
   \<and> (arg_method args \<notin> set [''variation'', ''stenosis'', ''area'']
        \<or> arg_region_of_interest args \<notin> set [''manual'', ''commandline'', ''first_line''] \<longrightarrow>
      read_command_line args = Inl (Raises SystemExit))"
proof -
  have a: "get_factor filt line method beta ratio percentage roi rp = Inl (Raises UnboundLocalError)"
    if "method \<notin> set [''variation'', ''stenosis'', ''area'']"
    using that unfolding get_factor_blend raw_factor_def Let_def by simp
  have c: "read_command_line args = Inl (Raises SystemExit)"
    if "arg_method args \<notin> set [''variation'', ''stenosis'', ''area'']
        \<or> arg_region_of_interest args \<notin> set [''manual'', ''commandline'', ''first_line'']"
    using that unfolding read_command_line_def by auto
  from a get_factor_unknown_region c show ?thesis
    by blast
qed

lemma example_unknown_region:
  "get_factor no_smoothing example_line ''area'' 1 None 50 ''sideways'' [] = Inr [3 / 2, 3 / 2, 3 / 2]"
proof -
  have u: "''sideways'' \<notin> set [''manual'', ''commandline'', ''first_line'']"
    by simp
  have "raw_factor no_smoothing example_line ''area'' 1 None 50 [] = Inr [3 / 2, 3 / 2, 3 / 2]"
    by (simp add: raw_factor_def example_line_def numeral_eq_Suc)
  then show ?thesis
    unfolding get_factor_unknown_region [OF u] .
qed

theorem unknown_names_counterexample:
  "''sideways'' \<notin> set [''manual'', ''commandline'', ''first_line'']
   \<and> get_factor no_smoothing example_line ''area'' 1 None 50 ''sideways'' [] =
       Inr [3 / 2, 3 / 2, 3 / 2]"
  using example_unknown_region by simp

theorem unknown_names_witness:
  "get_factor no_smoothing example_line ''bulge'' 1 None 50 ''manual'' [] =
     Inl (Raises UnboundLocalError)
   \<and> get_factor no_smoothing example_line ''area'' 1 None 50 ''sideways'' [] =
     raw_factor no_smoothing example_line ''area'' 1 None 50 []
   \<and> read_command_line \<lparr>arg_method = ''bulge'', arg_region_of_interest = ''manual'',
        arg_region_points = None, arg_beta = 1 / 2, arg_ratio = None, arg_percentage = 50,
        arg_no_smooth_point = None\<rparr> = Inl (Raises SystemExit)
   \<and> read_command_line \<lparr>arg_method = ''area'', arg_region_of_interest = ''sideways'',
        arg_region_points = None, arg_beta = 1 / 2, arg_ratio = None, arg_percentage = 50,
        arg_no_smooth_point = None\<rparr> = Inl (Raises SystemExit)"
proof -
  have m: "''bulge'' \<notin> set [''variation'', ''stenosis'', ''area'']"
    and r: "''sideways'' \<notin> set [''manual'', ''commandline'', ''first_line'']"
    by simp_all
  from unknown_names [of "''bulge''" no_smoothing example_line 1 None 50 "''manual''" "[]"
      "\<lparr>arg_method = ''bulge'', arg_region_of_interest = ''manual'',
        arg_region_points = None, arg_beta = 1 / 2, arg_ratio = None, arg_percentage = 50,
        arg_no_smooth_point = None\<rparr>"]
    unknown_names [of "''area''" no_smoothing example_line 1 None 50 "''sideways''" "[]"
      "\<lparr>arg_method = ''area'', arg_region_of_interest = ''sideways'',
        arg_region_points = None, arg_beta = 1 / 2, arg_ratio = None, arg_percentage = 50,
        arg_no_smooth_point = None\<rparr>"] m r
  show ?thesis
    by simp
qed


subsection \<open>Positive factors\<close>

lemma linspace_between:
  assumes "x \<in> set (linspace a b n)" and "a \<le> b"
  shows "a \<le> x \<and> x \<le> b"
proof (cases "n = 1")
  case True
  with assms show ?thesis by (simp add: linspace_def)
next
  case False
  with assms(1) obtain i where i: "i < n" and x: "x = a + real i * ((b - a) / real (n - 1))"
    by (auto simp: linspace_def)
  from i False have n: "0 < real (n - 1)" and le: "real i \<le> real (n - 1)"
    by simp_all
  have t: "0 \<le> real i / real (n - 1)" "real i / real (n - 1) \<le> 1"
    using n le by simp_all
  have "x = a + (real i / real (n - 1)) * (b - a)"
    unfolding x by simp
  moreover have "0 \<le> (real i / real (n - 1)) * (b - a)"
    using t(1) assms(2) by simp
  moreover have "(real i / real (n - 1)) * (b - a) \<le> 1 * (b - a)"
    using t(2) assms(2) by (intro mult_right_mono) simp_all
  ultimately show ?thesis by simp
qed

lemma linspace_down:
  assumes "x \<in> set (linspace 1 0 n)"
  shows "0 \<le> x \<and> x \<le> 1"
proof (cases "n = 1")
  case True
  with assms show ?thesis by (simp add: linspace_def)
next
  case False
  with assms(1) obtain i where i: "i < n" and x: "x = 1 + real i * ((0 - 1) / real (n - 1))"
    by (auto simp: linspace_def)
  from i False have n: "0 < real (n - 1)" and le: "real i \<le> real (n - 1)"
    by simp_all
  have t: "0 \<le> real i / real (n - 1)" "real i / real (n - 1) \<le> 1"
    using n le by simp_all
  have "x = 1 - real i / real (n - 1)"
    unfolding x by simp
  with t show ?thesis by simp
qed

lemma transition_weights_range:
  assumes "w \<in> set (transition_weights roi method n)"
  shows "0 \<le> w \<and> w \<le> 1"
proof -
  from assms have "w = 0 \<or> w \<in> set (linspace 0 1 (py_round_tenth n))
      \<or> w \<in> set (linspace 1 0 (py_round_tenth n))"
    by (auto simp: transition_weights_def Let_def split: if_splits)
  then show ?thesis
    using linspace_between [of w 0 1 "py_round_tenth n"] linspace_down [of w "py_round_tenth n"]
    by auto
qed

lemma blend_positive:
  assumes "\<forall>f \<in> set raw. 0 < f" and "\<forall>w \<in> set ws. 0 \<le> w \<and> w \<le> 1"
  shows "\<forall>x \<in> set (blend raw ws). 0 < x"
proof
  fix x
  assume "x \<in> set (blend raw ws)"
  then obtain f w where fw: "(f, w) \<in> set (zip raw ws)" and x: "x = f * (1 - w) + w"
    by (auto simp: blend_def)
  from fw have "f \<in> set raw" "w \<in> set ws"
    by (auto dest: set_zip_leftD set_zip_rightD)
  with assms have f: "0 < f" and w: "0 \<le> w" "w \<le> 1"
    by auto
  show "0 < x"
  proof (cases "w = 1")
    case True
    then show ?thesis by (simp add: x)
  next
    case False
    with w have "0 < 1 - w" by simp
    with f have "0 < f * (1 - w)" by simp
    with w(1) show ?thesis by (simp add: x)
  qed
qed

lemma map_result_elements:
  "map_result f xs = Inr ys \<Longrightarrow> \<forall>y \<in> set ys. \<exists>x \<in> set xs. f x = Inr y"
proof (induction xs arbitrary: ys)
  case Nil
  then show ?case by simp
next
  case (Cons x xs)
  then show ?case
    by (auto split: sum.splits)
qed


lemma variation_raw_positive:
  assumes "\<forall>a \<in> set area. 0 < a"
  shows "\<forall>x \<in> set (variation_raw area b). 0 < x"
proof
  fix x
  assume "x \<in> set (variation_raw area b)"
  then obtain a where a: "a \<in> set area" and x: "x = (a / np_mean area) powr b"
    by (auto simp: variation_raw_def Let_def)
  from a have "area \<noteq> []" by auto
  with assms have "0 < np_mean area"
    by (simp add: np_mean_positive)
  with a assms have "a / np_mean area \<noteq> 0"
    by auto
  then show "0 < x"
    unfolding x by simp
qed

lemma sine_positive:
  assumes "x \<in> set (linspace 0 pi n)" and "percentage < 100"
  shows "0 < 1 - sin x * percentage * 0.01"
proof -
  from linspace_between [OF assms(1)] have x: "0 \<le> x" "x \<le> pi"
    by simp_all
  then have s: "0 \<le> sin x" "sin x \<le> 1"
    by (simp_all add: sin_ge_zero)
  have "sin x * percentage < 100"
  proof (cases "percentage \<le> 0")
    case True
    with s(1) have "sin x * percentage \<le> 0"
      by (simp add: mult_nonneg_nonpos)
    then show ?thesis by simp
  next
    case False
    with s(2) have "sin x * percentage \<le> 1 * percentage"
      by (intro mult_right_mono) simp_all
    with assms(2) show ?thesis by simp
  qed
  then show ?thesis by simp
qed

lemma interpolated_positive:
  assumes l: "l \<in> set lengths" and nonneg: "\<forall>l \<in> set lengths. 0 \<le> l"
    and a: "0 < a" and ends: "0 < first" "0 < final"
    and r: "bind_result (np_divide l (Max (set lengths))) (\<lambda>s.
            bind_result (np_divide (first + (final - first) * s) a) np_sqrt) = Inr y"
  shows "0 < (y :: real)"
proof -
  let ?M = "Max (set lengths)"
  from r have M0: "?M \<noteq> 0"
    by (auto simp: np_divide_def split: if_splits)
  from l have lM: "l \<le> ?M"
    by simp
  from l nonneg have l0: "0 \<le> l"
    by simp
  with lM M0 have M: "0 < ?M"
    by simp
  define s where "s = l / ?M"
  have s: "0 \<le> s" "s \<le> 1"
    using l0 lM M by (simp_all add: s_def)
  have "first + (final - first) * s = first * (1 - s) + final * s"
    by (simp add: algebra_simps)
  moreover have "0 < first * (1 - s) + final * s"
  proof (cases "s = 0")
    case True
    with ends show ?thesis by simp
  next
    case False
    with s(1) ends(2) have "0 < final * s" by simp
    moreover from s(2) ends(1) have "0 \<le> first * (1 - s)" by simp
    ultimately show ?thesis by simp
  qed
  ultimately have t: "0 < (first + (final - first) * s) / a"
    using a by simp
  from r M0 a have "y = sqrt ((first + (final - first) * s) / a)"
    unfolding s_def by (auto simp: np_divide_def np_sqrt_def split: if_splits)
  with t show ?thesis by simp
qed

lemma raw_factor_positive:
  assumes raw: "raw_factor filt line method beta ratio percentage rp = Inr raw"
    and pos: "\<forall>a \<in> set (smoothed_area filt line). 0 < a"
    and absc: "\<forall>s \<in> set line. 0 \<le> abscissa s"
    and pa: "method = ''area'' \<longrightarrow> - 100 < percentage"
    and ps: "method = ''stenosis'' \<longrightarrow> percentage < 100"
  shows "\<forall>x \<in> set raw. 0 < x"
proof -
  let ?area = "smoothed_area filt line"
  consider (v) "method = ''variation''"
    | (s3) "method = ''stenosis''" "length rp = 3"
    | (s6) "method = ''stenosis''" "length rp = 6" "?area \<noteq> []"
    | (a) "method = ''area''"
    using raw unfolding raw_factor_def Let_def by (auto split: if_splits)
  then show ?thesis
  proof cases
    case v
    with raw obtain b where
      "map_result (\<lambda>a. bind_result (np_divide a (np_mean ?area)) (\<lambda>x. np_power x b)) ?area = Inr raw"
      unfolding raw_factor_def Let_def by (auto simp: bind_result_eq_Inr split: option.splits)
    with variation_elements [OF pos, of b] have "raw = variation_raw ?area b"
      by simp
    with variation_raw_positive [OF pos] show ?thesis
      by simp
  next
    case s3
    with raw have "raw = map (\<lambda>x. 1 - sin x * percentage * 0.01) (linspace 0 pi (length line))"
      unfolding raw_factor_def Let_def by simp
    then have r: "raw = map (\<lambda>x. 1 - sin x * percentage * 0.01) (linspace 0 pi (length line))" .
    from s3(1) ps have p: "percentage < 100"
      by simp
    show ?thesis
    proof
      fix y
      assume "y \<in> set raw"
      then obtain x where x: "x \<in> set (linspace 0 pi (length line))"
        and y: "y = 1 - sin x * percentage * 0.01"
        unfolding r by auto
      from sine_positive [OF x p] show "0 < y"
        unfolding y .
    qed
  next
    case s6
    let ?lengths = "get_curvilinear_coordinate line"
    from s6 raw have m: "map_result
        (\<lambda>(l, a).
           bind_result (np_divide l (Max (set ?lengths))) (\<lambda>s.
           bind_result (np_divide (hd ?area + (last ?area - hd ?area) * s) a) np_sqrt))
        (zip ?lengths ?area) = Inr raw"
      unfolding raw_factor_def Let_def by simp
    have ends: "0 < hd ?area" "0 < last ?area"
      using s6(3) pos by simp_all
    have nonneg: "\<forall>l \<in> set ?lengths. 0 \<le> l"
      using absc by (simp add: get_curvilinear_coordinate_def)
    show ?thesis
    proof
      fix y
      assume "y \<in> set raw"
      with map_result_elements [OF m] obtain l a where
        la: "(l, a) \<in> set (zip ?lengths ?area)" and
        r: "bind_result (np_divide l (Max (set ?lengths))) (\<lambda>s.
            bind_result (np_divide (hd ?area + (last ?area - hd ?area) * s) a) np_sqrt) = Inr y"
        by fastforce
      from la have l: "l \<in> set ?lengths" and a: "a \<in> set ?area"
        by (auto dest: set_zip_leftD set_zip_rightD)
      from a pos have "0 < a" by simp
      from interpolated_positive [OF l nonneg this ends r] show "0 < y" .
    qed
  next
    case a
    with raw have "raw = map (\<lambda>x. x * (1 + percentage * 0.01)) (replicate (length ?area) 1)"
      unfolding raw_factor_def Let_def by simp
    with a pa show ?thesis
      by auto
  qed
qed


lemma beta_of_ratio_nonpositive: "r \<le> 0 \<Longrightarrow> beta_of_ratio area r = Inl (Raises ValueError)"
  by (simp add: beta_of_ratio_def math_log_def)

lemma beta_of_ratio_constant:
  assumes pos: "\<forall>a \<in> set area. 0 < a" and ne: "area \<noteq> []" and r: "0 < r"
    and c: "Max (set area) = Min (set area)"
  shows "beta_of_ratio area r = Inl (Raises ZeroDivisionError)"
proof -
  have mn: "0 < Min (set area)"
    using pos ne by simp
  have d1: "np_divide (Max (set area)) (Min (set area)) = Inr 1"
    using mn c by (simp add: np_divide_def)
  have l1: "math_log r = Inr (ln r)"
    using r by (simp add: math_log_def)
  have l2: "math_log 1 = Inr 0"
    by (simp add: math_log_def)
  have dv: "py_div (ln r) 0 = Inl (Raises ZeroDivisionError)"
    by (simp add: py_div_def)
  show ?thesis
    unfolding beta_of_ratio_def l1 d1 bind_result_Inr l2 dv using ne by simp
qed


lemma example_weights: "transition_weights ''manual'' method 3 = [0, 0, 0]"
proof -
  have rt: "py_round_tenth 3 = 0"
    by (simp add: py_round_tenth_def)
  have rp: "replicate 3 (0::real) = [0, 0, 0]"
    by (simp add: numeral_eq_Suc)
  show ?thesis
    by (simp add: transition_weights_def Let_def rt linspace_def rp)
qed

lemma example_area_factor:
  "get_factor no_smoothing example_line ''area'' 1 None p ''manual'' [] =
   Inr [1 + p * 0.01, 1 + p * 0.01, 1 + p * 0.01]"
proof -
  have n: "length example_line = 3"
    by (simp add: example_line_def)
  have raw: "raw_factor no_smoothing example_line ''area'' 1 None p [] =
      Inr [1 + p * 0.01, 1 + p * 0.01, 1 + p * 0.01]"
    by (simp add: raw_factor_def example_line_def numeral_eq_Suc)
  show ?thesis
    unfolding get_factor_blend raw n example_weights by (simp add: blend_def)
qed


lemma constant_areas: "map CenterlineSectionArea (straight_line 3) = [1, 1, 1]"
  by (simp add: straight_line_def numeral_eq_Suc)


end
